theory Spec2Isabelle
  imports Complex_Main
begin

section \<open>JavaScript numbers and values\<close>

text \<open>
  The simulation of \<^verbatim>\<open>src/boids.jsx\<close> computes with JavaScript Numbers. A Number is
  modelled as a real, one of the two infinities, or NaN. Finite arithmetic is exact
  (rounding, overflow and underflow of binary64 are not modelled) and the two zeros
  are identified. Every divisor of the source is a counter, a \<^verbatim>\<open>Math.sqrt\<close> or a
  \<^verbatim>\<open>Math.hypot\<close>, none of which is \<^verbatim>\<open>-0\<close>, so dividing by the one zero of the model
  follows the rules for \<^verbatim>\<open>+0\<close>.
\<close>

datatype number = Fin real | PInf | NInf | NaN

instantiation number :: "{zero, plus, minus, uminus, times, inverse, ord}"
begin

definition zero_number :: number where
  "zero_number = Fin 0"

fun uminus_number :: "number \<Rightarrow> number" where
  "uminus_number (Fin a) = Fin (- a)"
| "uminus_number PInf = NInf"
| "uminus_number NInf = PInf"
| "uminus_number NaN = NaN"

fun plus_number :: "number \<Rightarrow> number \<Rightarrow> number" where
  "plus_number (Fin a) (Fin b) = Fin (a + b)"
| "plus_number NaN _ = NaN"
| "plus_number _ NaN = NaN"
| "plus_number PInf NInf = NaN"
| "plus_number NInf PInf = NaN"
| "plus_number PInf _ = PInf"
| "plus_number _ PInf = PInf"
| "plus_number NInf _ = NInf"
| "plus_number _ NInf = NInf"

definition minus_number :: "number \<Rightarrow> number \<Rightarrow> number" where
  "minus_number a b = a + (- b)"

fun times_number :: "number \<Rightarrow> number \<Rightarrow> number" where
  "times_number (Fin a) (Fin b) = Fin (a * b)"
| "times_number NaN _ = NaN"
| "times_number _ NaN = NaN"
| "times_number (Fin a) PInf = (if a = 0 then NaN else if 0 < a then PInf else NInf)"
| "times_number (Fin a) NInf = (if a = 0 then NaN else if 0 < a then NInf else PInf)"
| "times_number PInf (Fin b) = (if b = 0 then NaN else if 0 < b then PInf else NInf)"
| "times_number NInf (Fin b) = (if b = 0 then NaN else if 0 < b then NInf else PInf)"
| "times_number PInf PInf = PInf"
| "times_number PInf NInf = NInf"
| "times_number NInf PInf = NInf"
| "times_number NInf NInf = PInf"

fun divide_number :: "number \<Rightarrow> number \<Rightarrow> number" where
  "divide_number (Fin a) (Fin b) =
     (if b = 0 then (if a = 0 then NaN else if 0 < a then PInf else NInf)
      else Fin (a / b))"
| "divide_number NaN _ = NaN"
| "divide_number _ NaN = NaN"
| "divide_number (Fin a) PInf = Fin 0"
| "divide_number (Fin a) NInf = Fin 0"
| "divide_number PInf (Fin b) = (if 0 \<le> b then PInf else NInf)"
| "divide_number NInf (Fin b) = (if 0 \<le> b then NInf else PInf)"
| "divide_number PInf PInf = NaN"
| "divide_number PInf NInf = NaN"
| "divide_number NInf PInf = NaN"
| "divide_number NInf NInf = NaN"

definition inverse_number :: "number \<Rightarrow> number" where
  "inverse_number a = divide (Fin 1) a"

text \<open>The relational operator \<^verbatim>\<open><\<close>: false as soon as an operand is NaN.\<close>

fun less_number :: "number \<Rightarrow> number \<Rightarrow> bool" where
  "less_number (Fin a) (Fin b) = (a < b)"
| "less_number NaN _ = False"
| "less_number _ NaN = False"
| "less_number NInf NInf = False"
| "less_number NInf _ = True"
| "less_number PInf _ = False"
| "less_number (Fin a) PInf = True"
| "less_number (Fin a) NInf = False"

definition less_eq_number :: "number \<Rightarrow> number \<Rightarrow> bool" where
  "less_eq_number a b = (a < b \<or> (a = b \<and> a \<noteq> NaN))"

instance ..

end

text \<open>\<^verbatim>\<open>x ** 2\<close>\<close>

definition pow2 :: "number \<Rightarrow> number" where
  "pow2 a = a * a"

fun Math_sqrt :: "number \<Rightarrow> number" where
  "Math_sqrt (Fin a) = (if a < 0 then NaN else Fin (sqrt a))"
| "Math_sqrt PInf = PInf"
| "Math_sqrt NInf = NaN"
| "Math_sqrt NaN = NaN"

text \<open>
  \<^verbatim>\<open>Math.hypot(a, b)\<close>: \<^verbatim>\<open>+Infinity\<close> if an argument is infinite, else NaN if one is
  NaN, else the square root of the sum of the squares.
\<close>

fun Math_hypot :: "number \<Rightarrow> number \<Rightarrow> number" where
  "Math_hypot (Fin a) (Fin b) = Fin (sqrt (a\<^sup>2 + b\<^sup>2))"
| "Math_hypot PInf _ = PInf"
| "Math_hypot NInf _ = PInf"
| "Math_hypot _ PInf = PInf"
| "Math_hypot _ NInf = PInf"
| "Math_hypot NaN _ = NaN"
| "Math_hypot _ NaN = NaN"

text \<open>An object \<^verbatim>\<open>{ x, y }\<close> with Number fields: a position, a velocity, a steering vector.\<close>

record vec =
  vec_x :: number
  vec_y :: number

text \<open>
  The values that reach an arithmetic operator of the source: \<^verbatim>\<open>undefined\<close>,
  \<^verbatim>\<open>null\<close> (the initial fields of \<^verbatim>\<open>mouseRef\<close>), a Number, or an object \<^verbatim>\<open>{ x, y }\<close>.
  \<open>ToNumber\<close> is the coercion an arithmetic operator and the \<^verbatim>\<open>Math\<close> functions apply to
  their operands.
\<close>

datatype jsval = Undefined | Null | Number number | Object vec

fun ToNumber :: "jsval \<Rightarrow> number" where
  "ToNumber Undefined = NaN"
| "ToNumber Null = Fin 0"
| "ToNumber (Number n) = n"
| "ToNumber (Object v) = NaN"

text \<open>
  Reading a property \<^verbatim>\<open>x\<close> or \<^verbatim>\<open>y\<close> of a Number primitive: neither the primitive nor
  \<^verbatim>\<open>Number.prototype\<close> has it, so the read gives \<^verbatim>\<open>undefined\<close> and does not throw.
\<close>

definition number_prop :: "number \<Rightarrow> string \<Rightarrow> jsval" where
  "number_prop n p = Undefined"

section \<open>The rule bundle \<^verbatim>\<open>BoidsModifier\<close>\<close>

record boid =
  position :: vec
  velocity :: vec
  angle :: number

text \<open>\<^verbatim>\<open>mouseRef.current\<close>: \<^verbatim>\<open>{ x: null, y: null }\<close> until the first pointer event.\<close>

record mouseRef =
  mouse_x :: jsval
  mouse_y :: jsval

text \<open>
  \<^verbatim>\<open>normalize = (x, y) => ...\<close>. The arguments are used by \<^verbatim>\<open>Math.hypot\<close> and as
  dividends only, both of which coerce them with \<open>ToNumber\<close>; the embedding takes the
  coerced Numbers. It is named \<open>normalize_vec\<close>, \<open>normalize\<close> being a constant of HOL.
\<close>

definition normalize_vec :: "number \<Rightarrow> number \<Rightarrow> vec" where
  "normalize_vec a b =
     (let magnitude = Math_hypot a b
      in if Fin 0 < magnitude
         then \<lparr>vec_x = a / magnitude, vec_y = b / magnitude\<rparr>
         else \<lparr>vec_x = Fin 0, vec_y = Fin 0\<rparr>)"

text \<open>
  The instance: the array \<^verbatim>\<open>this.boids\<close> (the same array \<^verbatim>\<open>updateBoids\<close> iterates over),
  the pointer cell \<^verbatim>\<open>this.mouse.current\<close> and the eleven parameters. A method mutates
  boids of the array in place; the embedding passes the instance and returns it
  updated. A boid handed to a method is an element of the array and is named by its
  index, so that the identity test \<^verbatim>\<open>other !== boid\<close> is a test on indices.
\<close>

record BoidsModifier =
  boids :: "boid list"
  mouse :: mouseRef
  visualRange :: number
  reduceFactor :: number
  centeringFactor :: number
  matchingFactor :: number
  maxSpeed :: number
  smoothSpeed :: number
  acceleration :: number
  minDistanceBoid :: number
  avoidFactorBoid :: number
  minDistanceMouse :: number
  avoidFactorMouse :: number

text \<open>
  The \<^verbatim>\<open>options\<close> object of the constructor. A field is \<open>None\<close> when the property is
  absent (\<^verbatim>\<open>undefined\<close>), which is when the destructuring default applies.
\<close>

record options =
  opt_visualRange :: "number option"
  opt_reduceFactor :: "number option"
  opt_centeringFactor :: "number option"
  opt_matchingFactor :: "number option"
  opt_maxSpeed :: "number option"
  opt_smoothSpeed :: "number option"
  opt_acceleration :: "number option"
  opt_minDistanceBoid :: "number option"
  opt_avoidFactorBoid :: "number option"
  opt_minDistanceMouse :: "number option"
  opt_avoidFactorMouse :: "number option"

definition no_options :: options where
  "no_options =
     \<lparr>opt_visualRange = None, opt_reduceFactor = None, opt_centeringFactor = None,
      opt_matchingFactor = None, opt_maxSpeed = None, opt_smoothSpeed = None,
      opt_acceleration = None, opt_minDistanceBoid = None, opt_avoidFactorBoid = None,
      opt_minDistanceMouse = None, opt_avoidFactorMouse = None\<rparr>"

definition or_default :: "number option \<Rightarrow> real \<Rightarrow> number" where
  "or_default v d = (case v of None \<Rightarrow> Fin d | Some n \<Rightarrow> n)"

text \<open>
  The source declares and throws no error. \<open>InvalidConfiguration\<close> is the failure the
  specification names; the constructor returns a sum so that a rejection could be
  told from a construction, and its body, like the source's, has no failing branch.
\<close>

datatype error = InvalidConfiguration

definition new_BoidsModifier :: "boid list \<Rightarrow> mouseRef \<Rightarrow> options \<Rightarrow> error + BoidsModifier" where
  "new_BoidsModifier bs ms opts =
     Inr \<lparr>boids = bs, mouse = ms,
          visualRange = or_default (opt_visualRange opts) 55,
          reduceFactor = or_default (opt_reduceFactor opts) 0.5,
          centeringFactor = or_default (opt_centeringFactor opts) 0.05,
          matchingFactor = or_default (opt_matchingFactor opts) 0.05,
          maxSpeed = or_default (opt_maxSpeed opts) 0.45,
          smoothSpeed = or_default (opt_smoothSpeed opts) 0.3,
          acceleration = or_default (opt_acceleration opts) 0.035,
          minDistanceBoid = or_default (opt_minDistanceBoid opts) 20,
          avoidFactorBoid = or_default (opt_avoidFactorBoid opts) 0.05,
          minDistanceMouse = or_default (opt_minDistanceMouse opts) 100,
          avoidFactorMouse = or_default (opt_avoidFactorMouse opts) 0.025\<rparr>"

text \<open>
  \<^verbatim>\<open>distance(boid1, boid2)\<close> reads the \<^verbatim>\<open>position\<close> of its two arguments and nothing
  else; the embedding takes the two positions.
\<close>

definition distance :: "vec \<Rightarrow> vec \<Rightarrow> number" where
  "distance p1 p2 = Math_sqrt (pow2 (vec_x p1 - vec_x p2) + pow2 (vec_y p1 - vec_y p2))"

definition applyAcceleration :: "BoidsModifier \<Rightarrow> number \<Rightarrow> number \<Rightarrow> vec" where
  "applyAcceleration m dx dy =
     (let speed = Math_hypot (pow2 dx) (pow2 dy)
      in if speed > maxSpeed m
         then \<lparr>vec_x = (dx / speed) * maxSpeed m, vec_y = (dy / speed) * maxSpeed m\<rparr>
         else \<lparr>vec_x = dx, vec_y = dy\<rparr>)"

text \<open>
  \<^verbatim>\<open>steer(current, target)\<close>. Both arguments are objects, and so is \<^verbatim>\<open>desired\<close>: the two
  subtractions coerce their operands with \<open>ToNumber\<close>. \<^verbatim>\<open>normalize\<close> is first called
  with one argument, so its \<^verbatim>\<open>y\<close> is \<^verbatim>\<open>undefined\<close>; the second call passes the
  properties \<^verbatim>\<open>x\<close> and \<^verbatim>\<open>y\<close> of the Number \<^verbatim>\<open>steer\<close>.
\<close>

definition steer :: "BoidsModifier \<Rightarrow> vec \<Rightarrow> vec \<Rightarrow> vec" where
  "steer m current target =
     (let desiredDir = ToNumber (Object target) - ToNumber (Object current);
          desired = normalize_vec (ToNumber (Number desiredDir)) (ToNumber Undefined);
          steer = ToNumber (Object desired) - ToNumber (Object current);
          normalizedSteer =
            normalize_vec (ToNumber (number_prop steer ''x'')) (ToNumber (number_prop steer ''y''))
      in applyAcceleration m
           (vec_x normalizedSteer * acceleration m)
           (vec_y normalizedSteer * acceleration m))"

text \<open>Writing \<^verbatim>\<open>boid.velocity\<close> and \<^verbatim>\<open>boid.position\<close> of the boid at index \<open>i\<close>.\<close>

definition set_velocity :: "BoidsModifier \<Rightarrow> nat \<Rightarrow> vec \<Rightarrow> BoidsModifier" where
  "set_velocity m i v = m\<lparr>boids := (boids m)[i := (boids m ! i)\<lparr>velocity := v\<rparr>]\<rparr>"

definition set_position :: "BoidsModifier \<Rightarrow> nat \<Rightarrow> vec \<Rightarrow> BoidsModifier" where
  "set_position m i p = m\<lparr>boids := (boids m)[i := (boids m ! i)\<lparr>position := p\<rparr>]\<rparr>"

text \<open>The loop of \<^verbatim>\<open>coherence\<close>: \<^verbatim>\<open>centerX\<close>, \<^verbatim>\<open>centerY\<close> and \<^verbatim>\<open>numNeighbors\<close>.\<close>

fun coherence_loop ::
  "BoidsModifier \<Rightarrow> boid \<Rightarrow> boid list \<Rightarrow> number \<times> number \<times> nat \<Rightarrow> number \<times> number \<times> nat" where
  "coherence_loop m boid [] acc = acc"
| "coherence_loop m boid (other # rest) (centerX, centerY, numNeighbors) =
     coherence_loop m boid rest
       (if distance (position boid) (position other) < visualRange m
        then (centerX + vec_x (position other), centerY + vec_y (position other),
              Suc numNeighbors)
        else (centerX, centerY, numNeighbors))"

definition coherence :: "BoidsModifier \<Rightarrow> nat \<Rightarrow> BoidsModifier" where
  "coherence m i =
     (let boid = boids m ! i;
          (centerX, centerY, numNeighbors) = coherence_loop m boid (boids m) (Fin 0, Fin 0, 0)
      in if numNeighbors > 0
         then
           let centerX' = centerX / Fin (real numNeighbors);
               centerY' = centerY / Fin (real numNeighbors);
               target = \<lparr>vec_x = centerX', vec_y = centerY'\<rparr>;
               steering = steer m (position boid) target
           in set_velocity m i
                \<lparr>vec_x = vec_x (velocity boid) + vec_x steering * centeringFactor m,
                 vec_y = vec_y (velocity boid) + vec_y steering * centeringFactor m\<rparr>
         else m)"

text \<open>
  The loop of \<^verbatim>\<open>avoidOthers\<close>: \<open>j\<close> is the index of \<^verbatim>\<open>other\<close>, and \<^verbatim>\<open>other !== boid\<close> is
  \<open>j \<noteq> i\<close>.
\<close>

fun avoidOthers_loop ::
  "BoidsModifier \<Rightarrow> nat \<Rightarrow> boid \<Rightarrow> nat \<Rightarrow> boid list \<Rightarrow> number \<times> number \<Rightarrow> number \<times> number" where
  "avoidOthers_loop m i boid j [] acc = acc"
| "avoidOthers_loop m i boid j (other # rest) (moveX, moveY) =
     avoidOthers_loop m i boid (Suc j) rest
       (let distance = distance (position boid) (position other)
        in if j \<noteq> i \<and> distance < minDistanceBoid m
           then (moveX + (vec_x (position boid) - vec_x (position other)),
                 moveY + (vec_y (position boid) - vec_y (position other)))
           else (moveX, moveY))"

definition avoidOthers :: "BoidsModifier \<Rightarrow> nat \<Rightarrow> BoidsModifier" where
  "avoidOthers m i =
     (let boid = boids m ! i;
          (moveX, moveY) = avoidOthers_loop m i boid 0 (boids m) (Fin 0, Fin 0);
          avoidVector = normalize_vec moveX moveY
      in set_velocity m i
           \<lparr>vec_x = vec_x (velocity boid) + vec_x avoidVector * avoidFactorBoid m * reduceFactor m,
            vec_y = vec_y (velocity boid) + vec_y avoidVector * avoidFactorBoid m * reduceFactor m\<rparr>)"

text \<open>The loop of \<^verbatim>\<open>matchVelocity\<close>: \<^verbatim>\<open>avgDX\<close>, \<^verbatim>\<open>avgDY\<close> and \<^verbatim>\<open>numNeighbors\<close>.\<close>

fun matchVelocity_loop ::
  "BoidsModifier \<Rightarrow> boid \<Rightarrow> boid list \<Rightarrow> number \<times> number \<times> nat \<Rightarrow> number \<times> number \<times> nat" where
  "matchVelocity_loop m boid [] acc = acc"
| "matchVelocity_loop m boid (other # rest) (avgDX, avgDY, numNeighbors) =
     matchVelocity_loop m boid rest
       (if distance (position boid) (position other) < visualRange m
        then (avgDX + vec_x (velocity other), avgDY + vec_y (velocity other),
              Suc numNeighbors)
        else (avgDX, avgDY, numNeighbors))"

text \<open>
  \<^verbatim>\<open>matchVelocity\<close>: \<open>blended\<close> is \<^verbatim>\<open>boid.velocity\<close> after the first \<^verbatim>\<open>if\<close>, from which
  \<^verbatim>\<open>speed\<close> is computed; the last \<^verbatim>\<open>if\<close>/\<^verbatim>\<open>else if\<close> divides by \<^verbatim>\<open>speed\<close> with no test
  that it is not zero.
\<close>

definition matchVelocity :: "BoidsModifier \<Rightarrow> nat \<Rightarrow> BoidsModifier" where
  "matchVelocity m i =
     (let boid = boids m ! i;
          (avgDX, avgDY, numNeighbors) = matchVelocity_loop m boid (boids m) (Fin 0, Fin 0, 0);
          blended =
            (if numNeighbors > 0
             then
               let avgDX' = avgDX / Fin (real numNeighbors);
                   avgDY' = avgDY / Fin (real numNeighbors)
               in \<lparr>vec_x = vec_x (velocity boid) + (avgDX' - vec_x (velocity boid)) * matchingFactor m,
                   vec_y = vec_y (velocity boid) + (avgDY' - vec_y (velocity boid)) * matchingFactor m\<rparr>
             else velocity boid);
          speed = Math_sqrt (pow2 (vec_x blended) + pow2 (vec_y blended))
      in set_velocity m i
           (if speed > maxSpeed m
            then \<lparr>vec_x = (vec_x blended / speed) * maxSpeed m,
                  vec_y = (vec_y blended / speed) * maxSpeed m\<rparr>
            else if speed < maxSpeed m * Fin 0.5
            then \<lparr>vec_x = (vec_x blended / speed) * maxSpeed m * Fin 0.75,
                  vec_y = (vec_y blended / speed) * maxSpeed m * Fin 0.75\<rparr>
            else blended))"

text \<open>
  \<^verbatim>\<open>avoidMouse\<close>: \<^verbatim>\<open>mouse.x\<close> and \<^verbatim>\<open>mouse.y\<close> are only ever operands of a subtraction (in
  \<^verbatim>\<open>distance\<close> and in \<^verbatim>\<open>moveX\<close>, \<^verbatim>\<open>moveY\<close>), which coerces them with \<open>ToNumber\<close>; there
  is no test of \<^verbatim>\<open>null\<close>.
\<close>

definition avoidMouse :: "BoidsModifier \<Rightarrow> nat \<Rightarrow> BoidsModifier" where
  "avoidMouse m i =
     (let boid = boids m ! i;
          mouseParsed = \<lparr>vec_x = ToNumber (mouse_x (mouse m)), vec_y = ToNumber (mouse_y (mouse m))\<rparr>;
          mouseDistance = distance (position boid) mouseParsed
      in if mouseDistance < minDistanceMouse m
         then
           let moveX = vec_x (position boid) - ToNumber (mouse_x (mouse m));
               moveY = vec_y (position boid) - ToNumber (mouse_y (mouse m));
               avoidVector = normalize_vec moveX moveY
           in set_velocity m i
                \<lparr>vec_x = vec_x (velocity boid) + vec_x avoidVector * avoidFactorMouse m,
                 vec_y = vec_y (velocity boid) + vec_y avoidVector * avoidFactorMouse m\<rparr>
         else m)"

definition applyBehaviors :: "BoidsModifier \<Rightarrow> nat \<Rightarrow> BoidsModifier" where
  "applyBehaviors m i =
     (let m1 = coherence m i;
          m2 = avoidOthers m1 i;
          m3 = avoidMouse m2 i
      in matchVelocity m3 i)"

section \<open>The frame update \<^verbatim>\<open>updateBoids\<close>\<close>

text \<open>
  The body of the loop of \<^verbatim>\<open>updateBoids\<close> for the boid at index \<open>i\<close>; \<open>width\<close> and
  \<open>height\<close> are \<^verbatim>\<open>canvas.width\<close> and \<^verbatim>\<open>canvas.height\<close>, \<open>size'\<close> the property \<^verbatim>\<open>size\<close> of
  the component. The four \<^verbatim>\<open>if\<close>s run one after the other, the second of each pair on
  the coordinate the first may have just written.
\<close>

definition updateBoid :: "number \<Rightarrow> number \<Rightarrow> number \<Rightarrow> BoidsModifier \<Rightarrow> nat \<Rightarrow> BoidsModifier" where
  "updateBoid width height size' m i =
     (let boid = boids m ! i;
          m1 = set_position m i
                 \<lparr>vec_x = vec_x (position boid) + vec_x (velocity boid),
                  vec_y = vec_y (position boid) + vec_y (velocity boid)\<rparr>;
          m2 = applyBehaviors m1 i;
          x0 = vec_x (position (boids m2 ! i));
          x1 = (if x0 > width + size' then - size' else x0);
          x2 = (if x1 < - size' then width + size' else x1);
          y0 = vec_y (position (boids m2 ! i));
          y1 = (if y0 > height + size' then - size' else y0);
          y2 = (if y1 < - size' then height + size' else y1)
      in set_position m2 i \<lparr>vec_x = x2, vec_y = y2\<rparr>)"

text \<open>
  \<^verbatim>\<open>for (const boid of boids)\<close>: the body never changes the length of the array, so the
  iterator visits the indices \<open>0, ..., length - 1\<close> in order.
\<close>

definition updateBoids :: "number \<Rightarrow> number \<Rightarrow> number \<Rightarrow> BoidsModifier \<Rightarrow> BoidsModifier" where
  "updateBoids width height size' m =
     fold (\<lambda>i m'. updateBoid width height size' m' i) [0..<length (boids m)] m"

section \<open>Concrete instances\<close>

text \<open>
  \<^verbatim>\<open>new BoidsModifier(boids, mouseRef, {})\<close>: every parameter at its default; the pointer
  cell as \<^verbatim>\<open>useRef({ x: null, y: null })\<close> creates it; a boid with finite coordinates.
\<close>

definition default_modifier :: "boid list \<Rightarrow> mouseRef \<Rightarrow> BoidsModifier" where
  "default_modifier bs ms = projr (new_BoidsModifier bs ms no_options)"

definition mouse_unset :: mouseRef where
  "mouse_unset = \<lparr>mouse_x = Null, mouse_y = Null\<rparr>"

text \<open>The pointer cell after a pointer event at \<open>(mx, my)\<close>.\<close>

definition mouse_at :: "real \<Rightarrow> real \<Rightarrow> mouseRef" where
  "mouse_at mx my = \<lparr>mouse_x = Number (Fin mx), mouse_y = Number (Fin my)\<rparr>"

definition boid_at :: "real \<Rightarrow> real \<Rightarrow> real \<Rightarrow> real \<Rightarrow> boid" where
  "boid_at px py vx vy =
     \<lparr>position = \<lparr>vec_x = Fin px, vec_y = Fin py\<rparr>,
      velocity = \<lparr>vec_x = Fin vx, vec_y = Fin vy\<rparr>, angle = Fin 0\<rparr>"

section \<open>The rules as the specification words them\<close>

text \<open>
  The steering vector of the cohesion rule in the specification's words,
  \<^verbatim>\<open>normalize(normalize(target - position) - position)\<close> with the subtractions taken
  componentwise, scaled to the acceleration and limited to the maximal speed.
\<close>

definition vec_minus :: "vec \<Rightarrow> vec \<Rightarrow> vec" where
  "vec_minus a b = \<lparr>vec_x = vec_x a - vec_x b, vec_y = vec_y a - vec_y b\<rparr>"

definition spec_limit :: "BoidsModifier \<Rightarrow> vec \<Rightarrow> vec" where
  "spec_limit m a =
     (let magnitude = Math_hypot (vec_x a) (vec_y a)
      in if magnitude > maxSpeed m
         then \<lparr>vec_x = (vec_x a / magnitude) * maxSpeed m,
               vec_y = (vec_y a / magnitude) * maxSpeed m\<rparr>
         else a)"

definition spec_steer :: "BoidsModifier \<Rightarrow> vec \<Rightarrow> vec \<Rightarrow> vec" where
  "spec_steer m current target =
     (let towards = vec_minus target current;
          desired = normalize_vec (vec_x towards) (vec_y towards);
          steering = vec_minus desired current;
          normalizedSteer = normalize_vec (vec_x steering) (vec_y steering)
      in spec_limit m
           \<lparr>vec_x = vec_x normalizedSteer * acceleration m,
            vec_y = vec_y normalizedSteer * acceleration m\<rparr>)"

text \<open>
  The velocity the cohesion rule of the specification gives the boid at index \<open>i\<close>; the
  centroid is the one the loop of \<^verbatim>\<open>coherence\<close> computes.
\<close>

definition spec_coherence_velocity :: "BoidsModifier \<Rightarrow> nat \<Rightarrow> vec" where
  "spec_coherence_velocity m i =
     (let boid = boids m ! i;
          (centerX, centerY, numNeighbors) = coherence_loop m boid (boids m) (Fin 0, Fin 0, 0)
      in if numNeighbors > 0
         then
           let target = \<lparr>vec_x = centerX / Fin (real numNeighbors),
                         vec_y = centerY / Fin (real numNeighbors)\<rparr>;
               steering = spec_steer m (position boid) target
           in \<lparr>vec_x = vec_x (velocity boid) + vec_x steering * centeringFactor m,
               vec_y = vec_y (velocity boid) + vec_y steering * centeringFactor m\<rparr>
         else velocity boid)"

text \<open>
  One time step in the specification's words: for each agent in order, integrate the
  position, apply the rules in the order cohesion, separation from boids, separation
  from the repulsor, alignment, then wrap each coordinate at the boundary.
\<close>

definition integrate :: "BoidsModifier \<Rightarrow> nat \<Rightarrow> BoidsModifier" where
  "integrate m i =
     set_position m i
       \<lparr>vec_x = vec_x (position (boids m ! i)) + vec_x (velocity (boids m ! i)),
        vec_y = vec_y (position (boids m ! i)) + vec_y (velocity (boids m ! i))\<rparr>"

definition wrap_coordinate :: "number \<Rightarrow> number \<Rightarrow> number \<Rightarrow> number" where
  "wrap_coordinate bound margin c =
     (let c' = (if c > bound + margin then - margin else c)
      in if c' < - margin then bound + margin else c')"

definition boundary_wrap :: "number \<Rightarrow> number \<Rightarrow> number \<Rightarrow> BoidsModifier \<Rightarrow> nat \<Rightarrow> BoidsModifier" where
  "boundary_wrap width height margin m i =
     set_position m i
       \<lparr>vec_x = wrap_coordinate width margin (vec_x (position (boids m ! i))),
        vec_y = wrap_coordinate height margin (vec_y (position (boids m ! i)))\<rparr>"

definition spec_agent_step :: "number \<Rightarrow> number \<Rightarrow> number \<Rightarrow> BoidsModifier \<Rightarrow> nat \<Rightarrow> BoidsModifier" where
  "spec_agent_step width height margin m i =
     boundary_wrap width height margin
       (matchVelocity (avoidMouse (avoidOthers (coherence (integrate m i) i) i) i) i) i"

fun spec_step_agents :: "number \<Rightarrow> number \<Rightarrow> number \<Rightarrow> nat list \<Rightarrow> BoidsModifier \<Rightarrow> BoidsModifier" where
  "spec_step_agents width height margin [] m = m"
| "spec_step_agents width height margin (i # rest) m =
     spec_step_agents width height margin rest (spec_agent_step width height margin m i)"

definition spec_step :: "number \<Rightarrow> number \<Rightarrow> number \<Rightarrow> BoidsModifier \<Rightarrow> BoidsModifier" where
  "spec_step width height margin m =
     spec_step_agents width height margin [0..<length (boids m)] m"

text \<open>
  The alignment rule in the specification's words: the neighbours of the boid at index
  \<open>i\<close> are the boids within the visual range (itself among them), their average
  velocity is the sum of their velocities, taken in the order of the array, over their
  number, and the velocity is blended towards it by the matching factor.
\<close>

definition neighbours :: "BoidsModifier \<Rightarrow> nat \<Rightarrow> boid list" where
  "neighbours m i =
     filter (\<lambda>other. distance (position (boids m ! i)) (position other) < visualRange m) (boids m)"

definition sum_numbers :: "number list \<Rightarrow> number" where
  "sum_numbers xs = foldl (+) (Fin 0) xs"

definition average_velocity :: "BoidsModifier \<Rightarrow> nat \<Rightarrow> vec" where
  "average_velocity m i =
     \<lparr>vec_x = sum_numbers (map (\<lambda>b. vec_x (velocity b)) (neighbours m i))
                / Fin (real (length (neighbours m i))),
      vec_y = sum_numbers (map (\<lambda>b. vec_y (velocity b)) (neighbours m i))
                / Fin (real (length (neighbours m i)))\<rparr>"

definition blend :: "BoidsModifier \<Rightarrow> nat \<Rightarrow> vec" where
  "blend m i =
     (let v = velocity (boids m ! i); avg = average_velocity m i
      in \<lparr>vec_x = vec_x v + (vec_x avg - vec_x v) * matchingFactor m,
          vec_y = vec_y v + (vec_y avg - vec_y v) * matchingFactor m\<rparr>)"

text \<open>The speed of a velocity, as \<^verbatim>\<open>matchVelocity\<close> computes it.\<close>

definition magnitude :: "vec \<Rightarrow> number" where
  "magnitude v = Math_sqrt (pow2 (vec_x v) + pow2 (vec_y v))"

fun is_finite :: "number \<Rightarrow> bool" where
  "is_finite (Fin a) = True"
| "is_finite PInf = False"
| "is_finite NInf = False"
| "is_finite NaN = False"

definition finite_vec :: "vec \<Rightarrow> bool" where
  "finite_vec v = (is_finite (vec_x v) \<and> is_finite (vec_y v))"

text \<open>
  The separation rule in the specification's words: the other boids nearer than
  \<^verbatim>\<open>minDistanceBoid\<close>, each with its index in the array, and the sum of the displacements
  from them to the boid at index \<open>i\<close>.
\<close>

definition close_others :: "BoidsModifier \<Rightarrow> nat \<Rightarrow> (nat \<times> boid) list" where
  "close_others m i =
     filter (\<lambda>(j, other). j \<noteq> i
               \<and> distance (position (boids m ! i)) (position other) < minDistanceBoid m)
       (enumerate 0 (boids m))"

definition separation_sum :: "BoidsModifier \<Rightarrow> nat \<Rightarrow> vec" where
  "separation_sum m i =
     \<lparr>vec_x = sum_numbers (map (\<lambda>(j, other). vec_x (position (boids m ! i)) - vec_x (position other))
                              (close_others m i)),
      vec_y = sum_numbers (map (\<lambda>(j, other). vec_y (position (boids m ! i)) - vec_y (position other))
                              (close_others m i))\<rparr>"

definition spec_avoidOthers_velocity :: "BoidsModifier \<Rightarrow> nat \<Rightarrow> vec" where
  "spec_avoidOthers_velocity m i =
     (let s = separation_sum m i;
          n = normalize_vec (vec_x s) (vec_y s);
          v = velocity (boids m ! i)
      in \<lparr>vec_x = vec_x v + vec_x n * avoidFactorBoid m * reduceFactor m,
          vec_y = vec_y v + vec_y n * avoidFactorBoid m * reduceFactor m\<rparr>)"

section \<open>Arithmetic of Numbers\<close>

lemma Fin_minus [simp]: "Fin a - Fin b = Fin (a - b)"
  by (simp add: minus_number_def)

lemma NaN_minus [simp]: "NaN - a = NaN" "a - NaN = NaN"
  by (cases a; simp add: minus_number_def)+

lemma number_add_zero [simp]: "a + Fin 0 = a"
  by (cases a) simp_all

lemma vec_eta [simp]: "\<lparr>vec_x = vec_x v, vec_y = vec_y v\<rparr> = (v::vec)"
  by (cases v) simp

lemma sqrt_pow2_axis: "Math_sqrt (pow2 (Fin a) + pow2 (Fin 0)) = Fin \<bar>a\<bar>"
  by (simp add: pow2_def flip: power2_eq_square)

lemma hypot_axis: "Math_hypot (Fin a) (Fin 0) = Fin \<bar>a\<bar>"
  by simp

lemma sqrt_2500: "sqrt 2500 = 50"
  by (rule real_sqrt_unique) simp_all

lemmas instance_defs =
  default_modifier_def boid_at_def new_BoidsModifier_def no_options_def or_default_def
  mouse_unset_def mouse_at_def set_velocity_def set_position_def Let_def

section \<open>Cohesion\<close>

text \<open>
  In \<^verbatim>\<open>steer\<close> both subtractions are between objects and give NaN, and the properties
  \<^verbatim>\<open>x\<close>, \<^verbatim>\<open>y\<close> of NaN are \<^verbatim>\<open>undefined\<close>: \<^verbatim>\<open>normalize\<close> is called on NaN twice and returns
  the zero vector both times. With a finite acceleration and a maximal speed that is
  not negative, the steering vector is zero whatever the positions are.
\<close>

lemma steer_zero:
  assumes "acceleration m = Fin a" and "\<not> maxSpeed m < Fin 0"
  shows "steer m current target = \<lparr>vec_x = Fin 0, vec_y = Fin 0\<rparr>"
  using assms
  by (simp add: steer_def number_prop_def normalize_vec_def applyAcceleration_def pow2_def Let_def)

lemma coherence_noop:
  assumes "i < length (boids m)" and "acceleration m = Fin a" and "centeringFactor m = Fin c"
    and "\<not> maxSpeed m < Fin 0"
  shows "coherence m i = m"
  using assms
  by (simp add: coherence_def steer_zero set_velocity_def Let_def split: prod.splits)

text \<open>
  C1 (cohesion steers the velocity towards the centroid of the neighbours). Two boids
  at rest, at \<open>(0, 0)\<close> and \<open>(10, 0)\<close>, default parameters: both are neighbours of the
  first, their centroid is \<open>(5, 0)\<close>, and the rule of the specification adds
  \<open>0.035 \<times> 0.05 = 0.00175\<close> to the \<open>x\<close> velocity of the first. \<^verbatim>\<open>coherence\<close> changes nothing.
\<close>

theorem coherence_adds_no_steering:
  "coherence (default_modifier [boid_at 0 0 0 0, boid_at 10 0 0 0] mouse_unset) 0
     = default_modifier [boid_at 0 0 0 0, boid_at 10 0 0 0] mouse_unset
   \<and> spec_coherence_velocity (default_modifier [boid_at 0 0 0 0, boid_at 10 0 0 0] mouse_unset) 0
     = \<lparr>vec_x = Fin 0.00175, vec_y = Fin 0\<rparr>"
proof
  show "coherence (default_modifier [boid_at 0 0 0 0, boid_at 10 0 0 0] mouse_unset) 0
     = default_modifier [boid_at 0 0 0 0, boid_at 10 0 0 0] mouse_unset"
    by (rule coherence_noop [where a = "0.035" and c = "0.05"]) (simp_all add: instance_defs)
  show "spec_coherence_velocity (default_modifier [boid_at 0 0 0 0, boid_at 10 0 0 0] mouse_unset) 0
     = \<lparr>vec_x = Fin 0.00175, vec_y = Fin 0\<rparr>"
    by (simp add: instance_defs spec_coherence_velocity_def spec_steer_def spec_limit_def
        vec_minus_def normalize_vec_def distance_def sqrt_pow2_axis hypot_axis
        del: Math_hypot.simps(1))
qed

section \<open>Separation from the pointer\<close>

text \<open>
  When the pointer is not nearer than \<^verbatim>\<open>minDistanceMouse\<close> (or the comparison is with
  NaN), \<^verbatim>\<open>avoidMouse\<close> changes nothing.
\<close>

lemma avoidMouse_far:
  assumes "\<not> distance (position (boids m ! i))
              \<lparr>vec_x = ToNumber (mouse_x (mouse m)), vec_y = ToNumber (mouse_y (mouse m))\<rparr>
            < minDistanceMouse m"
  shows "avoidMouse m i = m"
  using assms by (simp add: avoidMouse_def Let_def)

text \<open>
  C2 (no repulsor, no avoidance). Before the first pointer event the cell holds
  \<^verbatim>\<open>{ x: null, y: null }\<close>, and \<^verbatim>\<open>null\<close> is \<open>0\<close> in a subtraction: a boid at \<open>(30, 40)\<close>
  is \<open>50 < 100\<close> away from the origin and is pushed away from it, by
  \<open>(30 / 50, 40 / 50) \<times> 0.025\<close>.
\<close>

theorem avoidMouse_unset_pointer_repels:
  "avoidMouse (default_modifier [boid_at 30 40 0 0] mouse_unset) 0
     = default_modifier [boid_at 30 40 0.015 0.02] mouse_unset"
  by (simp add: instance_defs avoidMouse_def normalize_vec_def distance_def pow2_def sqrt_2500)

section \<open>Construction\<close>

text \<open>
  C3 as stated (a configuration with \<^verbatim>\<open>maxSpeed = 0\<close>, or with a negative factor, is
  rejected with \<open>InvalidConfiguration\<close>) fails: both constructions succeed.
\<close>

theorem new_BoidsModifier_accepts_zero_maxSpeed:
  "new_BoidsModifier [] mouse_unset (no_options\<lparr>opt_maxSpeed := Some (Fin 0)\<rparr>)
     \<noteq> Inl InvalidConfiguration
   \<and> maxSpeed (projr (new_BoidsModifier [] mouse_unset (no_options\<lparr>opt_maxSpeed := Some (Fin 0)\<rparr>)))
     = Fin 0
   \<and> new_BoidsModifier [] mouse_unset (no_options\<lparr>opt_avoidFactorBoid := Some (Fin (- 1))\<rparr>)
     \<noteq> Inl InvalidConfiguration"
  by (simp add: new_BoidsModifier_def no_options_def or_default_def)

text \<open>
  C3, amended: the constructor validates nothing and never fails. Whatever the options
  are, it returns an instance that holds the array, the pointer cell and, for each
  parameter, the value supplied or else the default.
\<close>

theorem new_BoidsModifier_total:
  "\<exists>m. new_BoidsModifier bs ms opts = Inr m
     \<and> boids m = bs \<and> mouse m = ms
     \<and> visualRange m = or_default (opt_visualRange opts) 55
     \<and> reduceFactor m = or_default (opt_reduceFactor opts) 0.5
     \<and> centeringFactor m = or_default (opt_centeringFactor opts) 0.05
     \<and> matchingFactor m = or_default (opt_matchingFactor opts) 0.05
     \<and> maxSpeed m = or_default (opt_maxSpeed opts) 0.45
     \<and> smoothSpeed m = or_default (opt_smoothSpeed opts) 0.3
     \<and> acceleration m = or_default (opt_acceleration opts) 0.035
     \<and> minDistanceBoid m = or_default (opt_minDistanceBoid opts) 20
     \<and> avoidFactorBoid m = or_default (opt_avoidFactorBoid opts) 0.05
     \<and> minDistanceMouse m = or_default (opt_minDistanceMouse opts) 100
     \<and> avoidFactorMouse m = or_default (opt_avoidFactorMouse opts) 0.025"
  by (simp add: new_BoidsModifier_def)

section \<open>Alignment\<close>

text \<open>
  C4 (the rescale is skipped when the speed is zero). A single boid at rest, default
  parameters: it is its own neighbour, the blended velocity is zero, \<^verbatim>\<open>speed\<close> is \<open>0\<close>,
  which is below \<open>0.45 \<times> 0.5\<close>, and both components become \<open>(0 / 0) \<times> 0.45 \<times> 0.75\<close>, NaN.
\<close>

theorem matchVelocity_at_rest_gives_NaN:
  "matchVelocity (default_modifier [boid_at 100 100 0 0] mouse_unset) 0
     = default_modifier
         [(boid_at 100 100 0 0)\<lparr>velocity := \<lparr>vec_x = NaN, vec_y = NaN\<rparr>\<rparr>] mouse_unset"
  by (simp add: instance_defs matchVelocity_def distance_def pow2_def)

section \<open>What a rule may write\<close>

text \<open>
  Each rule either returns the instance as it is or writes the velocity of the boid it
  was given; in both cases the result is \<open>set_velocity m i v\<close> for some \<open>v\<close>.
\<close>

lemma set_velocity_twice [simp]: "set_velocity (set_velocity m i v) i w = set_velocity m i w"
  by (cases "i < length (boids m)") (simp_all add: set_velocity_def list_update_beyond)

lemma set_velocity_same: "set_velocity m i (velocity (boids m ! i)) = m"
  by (simp add: set_velocity_def)

lemma length_set_velocity [simp]: "length (boids (set_velocity m i v)) = length (boids m)"
  by (simp add: set_velocity_def)

lemma length_set_position [simp]: "length (boids (set_position m i p)) = length (boids m)"
  by (simp add: set_position_def)

lemma nth_set_velocity_other [simp]: "j \<noteq> i \<Longrightarrow> boids (set_velocity m i v) ! j = boids m ! j"
  by (simp add: set_velocity_def)

lemma nth_set_position_other [simp]: "j \<noteq> i \<Longrightarrow> boids (set_position m i p) ! j = boids m ! j"
  by (simp add: set_position_def)

lemma nth_set_velocity_same [simp]:
  "i < length (boids m) \<Longrightarrow> boids (set_velocity m i v) ! i = (boids m ! i)\<lparr>velocity := v\<rparr>"
  by (simp add: set_velocity_def)

lemma nth_set_position_same [simp]:
  "i < length (boids m) \<Longrightarrow> boids (set_position m i p) ! i = (boids m ! i)\<lparr>position := p\<rparr>"
  by (simp add: set_position_def)

lemma map_update_same: "f y = f (xs ! i) \<Longrightarrow> map f (xs[i := y]) = map f xs"
proof (cases "i < length xs")
  case True
  assume "f y = f (xs ! i)"
  with True have "(map f xs)[i := f y] = (map f xs)[i := map f xs ! i]" by simp
  then show ?thesis by (simp add: map_update del: nth_map)
next
  case False
  then show ?thesis by (simp add: list_update_beyond)
qed

lemma positions_set_velocity [simp]:
  "map position (boids (set_velocity m i v)) = map position (boids m)"
  by (simp add: set_velocity_def map_update_same)

lemma angles_set_velocity [simp]:
  "map angle (boids (set_velocity m i v)) = map angle (boids m)"
  by (simp add: set_velocity_def map_update_same)

lemma set_velocity_boids_only: "set_velocity m i v = m\<lparr>boids := boids (set_velocity m i v)\<rparr>"
  by (simp add: set_velocity_def)

lemma set_position_boids_only: "set_position m i v = m\<lparr>boids := boids (set_position m i v)\<rparr>"
  by (simp add: set_position_def)

lemma coherence_writes_velocity: "\<exists>v. coherence m i = set_velocity m i v"
proof (cases "coherence m i = m")
  case True
  then have "coherence m i = set_velocity m i (velocity (boids m ! i))"
    by (simp add: set_velocity_same)
  then show ?thesis ..
next
  case False
  then show ?thesis
    by (auto simp: coherence_def Let_def split: prod.splits if_splits)
qed

lemma avoidOthers_writes_velocity: "\<exists>v. avoidOthers m i = set_velocity m i v"
  by (auto simp: avoidOthers_def Let_def split: prod.splits)

lemma avoidMouse_writes_velocity: "\<exists>v. avoidMouse m i = set_velocity m i v"
proof (cases "avoidMouse m i = m")
  case True
  then have "avoidMouse m i = set_velocity m i (velocity (boids m ! i))"
    by (simp add: set_velocity_same)
  then show ?thesis ..
next
  case False
  then show ?thesis
    by (auto simp: avoidMouse_def Let_def split: if_splits)
qed

lemma matchVelocity_writes_velocity: "\<exists>v. matchVelocity m i = set_velocity m i v"
  by (auto simp: matchVelocity_def Let_def split: prod.splits)

lemma applyBehaviors_writes_velocity: "\<exists>v. applyBehaviors m i = set_velocity m i v"
proof -
  obtain v1 where 1: "coherence m i = set_velocity m i v1"
    using coherence_writes_velocity by blast
  obtain v2 where 2: "avoidOthers (set_velocity m i v1) i = set_velocity (set_velocity m i v1) i v2"
    using avoidOthers_writes_velocity by blast
  obtain v3 where 3: "avoidMouse (set_velocity m i v2) i = set_velocity (set_velocity m i v2) i v3"
    using avoidMouse_writes_velocity by blast
  obtain v4 where 4: "matchVelocity (set_velocity m i v3) i = set_velocity (set_velocity m i v3) i v4"
    using matchVelocity_writes_velocity by blast
  have "applyBehaviors m i = set_velocity m i v4"
    using 1 2 3 4 by (simp add: applyBehaviors_def)
  then show ?thesis ..
qed

text \<open>
  C10 (frame of the rules). \<^verbatim>\<open>applyBehaviors(boid)\<close> leaves the length of the array, the
  position and the angle of every boid, every boid other than the one it was given,
  and every field of the instance other than the array as they were: only the velocity
  of the boid at index \<open>i\<close> can differ.
\<close>

theorem applyBehaviors_frame:
  "length (boids (applyBehaviors m i)) = length (boids m)
   \<and> map position (boids (applyBehaviors m i)) = map position (boids m)
   \<and> map angle (boids (applyBehaviors m i)) = map angle (boids m)
   \<and> (\<forall>j. j \<noteq> i \<longrightarrow> boids (applyBehaviors m i) ! j = boids m ! j)
   \<and> applyBehaviors m i = m\<lparr>boids := boids (applyBehaviors m i)\<rparr>"
proof -
  obtain v where v: "applyBehaviors m i = set_velocity m i v"
    using applyBehaviors_writes_velocity by blast
  show ?thesis
    unfolding v using set_velocity_boids_only [of m i v] by simp
qed

theorem applyBehaviors_frame_witness:
  "boids (applyBehaviors (default_modifier [boid_at 0 0 1 0, boid_at 10 0 0 1] mouse_unset) 0) ! 1
     = boid_at 10 0 0 1
   \<and> map position (boids (applyBehaviors (default_modifier [boid_at 0 0 1 0, boid_at 10 0 0 1] mouse_unset) 0))
     = [\<lparr>vec_x = Fin 0, vec_y = Fin 0\<rparr>, \<lparr>vec_x = Fin 10, vec_y = Fin 0\<rparr>]"
  using applyBehaviors_frame [of "default_modifier [boid_at 0 0 1 0, boid_at 10 0 0 1] mouse_unset" 0]
  by (simp add: instance_defs)

section \<open>The order of a time step\<close>

lemma updateBoid_eq_spec: "updateBoid width height size' m i = spec_agent_step width height size' m i"
  by (simp add: updateBoid_def spec_agent_step_def boundary_wrap_def wrap_coordinate_def
      integrate_def applyBehaviors_def Let_def)

lemma fold_updateBoid_eq_spec:
  "fold (\<lambda>i m'. updateBoid width height size' m' i) js m = spec_step_agents width height size' js m"
  by (induction js arbitrary: m) (simp_all add: updateBoid_eq_spec)

lemma updateBoid_shape:
  "\<exists>p v q. updateBoid width height size' m i
     = set_position (set_velocity (set_position m i p) i v) i q"
proof -
  obtain v where v: "applyBehaviors (integrate m i) i = set_velocity (integrate m i) i v"
    using applyBehaviors_writes_velocity by blast
  show ?thesis
    unfolding updateBoid_eq_spec spec_agent_step_def
    using v by (auto simp: applyBehaviors_def boundary_wrap_def integrate_def Let_def)
qed

lemma length_updateBoid [simp]:
  "length (boids (updateBoid width height size' m i)) = length (boids m)"
  using updateBoid_shape [of width height size' m i] by auto

lemma nth_updateBoid_other:
  "j \<noteq> i \<Longrightarrow> boids (updateBoid width height size' m i) ! j = boids m ! j"
  using updateBoid_shape [of width height size' m i] by auto

lemma updateBoid_boids_only:
  "updateBoid width height size' m i = m\<lparr>boids := boids (updateBoid width height size' m i)\<rparr>"
  using updateBoid_shape [of width height size' m i]
  by (auto simp: set_position_def set_velocity_def)

lemma fold_updateBoid_frame:
  "length (boids (fold (\<lambda>i m'. updateBoid width height size' m' i) js m)) = length (boids m)
   \<and> fold (\<lambda>i m'. updateBoid width height size' m' i) js m
       = m\<lparr>boids := boids (fold (\<lambda>i m'. updateBoid width height size' m' i) js m)\<rparr>"
proof (induction js arbitrary: m)
  case Nil
  show ?case by simp
next
  case (Cons j js)
  let ?m1 = "updateBoid width height size' m j"
  let ?r = "fold (\<lambda>i m'. updateBoid width height size' m' i) js ?m1"
  from Cons.IH [of ?m1] have len: "length (boids ?r) = length (boids ?m1)"
    and only: "?r = ?m1\<lparr>boids := boids ?r\<rparr>" by simp_all
  have "?r = (m\<lparr>boids := boids ?m1\<rparr>)\<lparr>boids := boids ?r\<rparr>"
    using only updateBoid_boids_only [of width height size' m j] by simp
  then have "?r = m\<lparr>boids := boids ?r\<rparr>" by simp
  with len show ?case by simp
qed

lemma fold_updateBoid_untouched:
  "i \<notin> set js \<Longrightarrow>
     boids (fold (\<lambda>i m'. updateBoid width height size' m' i) js m) ! i = boids m ! i"
  by (induction js arbitrary: m) (simp_all add: nth_updateBoid_other)

text \<open>
  C8 (order of a step). \<^verbatim>\<open>updateBoids\<close> is the step of the specification: the agents are
  taken one at a time in the order of the array, and for each the position is
  integrated, then \<^verbatim>\<open>coherence\<close>, \<^verbatim>\<open>avoidOthers\<close>, \<^verbatim>\<open>avoidMouse\<close> and \<^verbatim>\<open>matchVelocity\<close> run in
  this order, then the boundary wrap. The step keeps the length of the array and
  changes nothing of the instance but the array: it works in place and has no other
  result.
\<close>

theorem updateBoids_order:
  "updateBoids width height size' m = spec_step width height size' m
   \<and> length (boids (updateBoids width height size' m)) = length (boids m)
   \<and> updateBoids width height size' m = m\<lparr>boids := boids (updateBoids width height size' m)\<rparr>"
  using fold_updateBoid_frame [of width height size' "[0..<length (boids m)]" m]
  by (simp add: updateBoids_def spec_step_def fold_updateBoid_eq_spec)

section \<open>The boundary wrap\<close>

lemma position_updateBoid_same:
  assumes "i < length (boids m)"
  shows "position (boids (updateBoid width height size' m i) ! i)
     = \<lparr>vec_x = wrap_coordinate width size'
                 (vec_x (position (boids m ! i)) + vec_x (velocity (boids m ! i))),
        vec_y = wrap_coordinate height size'
                 (vec_y (position (boids m ! i)) + vec_y (velocity (boids m ! i)))\<rparr>"
proof -
  obtain v where v: "applyBehaviors (integrate m i) i = set_velocity (integrate m i) i v"
    using applyBehaviors_writes_velocity by blast
  have "updateBoid width height size' m i
     = boundary_wrap width height size' (set_velocity (integrate m i) i v) i"
    using v by (simp add: updateBoid_eq_spec spec_agent_step_def applyBehaviors_def)
  then show ?thesis
    using assms by (simp add: boundary_wrap_def integrate_def)
qed

lemma position_updateBoids:
  assumes "i < length (boids m)"
  shows "position (boids (updateBoids width height size' m) ! i)
     = \<lparr>vec_x = wrap_coordinate width size'
                 (vec_x (position (boids m ! i)) + vec_x (velocity (boids m ! i))),
        vec_y = wrap_coordinate height size'
                 (vec_y (position (boids m ! i)) + vec_y (velocity (boids m ! i)))\<rparr>"
proof -
  let ?f = "\<lambda>i m'. updateBoid width height size' m' i"
  let ?n = "length (boids m)"
  let ?pre = "fold ?f [0..<i] m"
  have split: "[0..<?n] = [0..<i] @ i # [Suc i..<?n]"
  proof -
    have "[0..<?n] = [0..<i] @ [i..<?n]"
      using assms upt_add_eq_append [of 0 i "?n - i"] by simp
    then show ?thesis
      using assms by (simp add: upt_conv_Cons)
  qed
  have pre_i: "boids ?pre ! i = boids m ! i"
    by (rule fold_updateBoid_untouched) simp
  have pre_len: "length (boids ?pre) = ?n"
    using fold_updateBoid_frame [of width height size' "[0..<i]" m] by simp
  have "updateBoids width height size' m = fold ?f [Suc i..<?n] (updateBoid width height size' ?pre i)"
    unfolding updateBoids_def by (subst split) simp
  then have "boids (updateBoids width height size' m) ! i
      = boids (updateBoid width height size' ?pre i) ! i"
    by (simp add: fold_updateBoid_untouched)
  then show ?thesis
    using position_updateBoid_same [of i ?pre width height size'] assms pre_i pre_len by simp
qed

lemma number_less_le_trans: "(a::number) < b \<Longrightarrow> b \<le> c \<Longrightarrow> \<not> c < a"
  by (cases a; cases b; cases c) (auto simp: less_eq_number_def)

lemma number_less_irrefl [simp]: "\<not> (a::number) < a"
  by (cases a) simp_all

lemma wrap_coordinate_above:
  "bound + margin < c \<Longrightarrow> wrap_coordinate bound margin c = - margin"
  by (simp add: wrap_coordinate_def)

lemma wrap_coordinate_below:
  assumes "c < - margin" and "- margin \<le> bound + margin"
  shows "wrap_coordinate bound margin c = bound + margin"
proof -
  have "\<not> bound + margin < c"
    using assms by (rule number_less_le_trans)
  with assms(1) show ?thesis
    by (simp add: wrap_coordinate_def)
qed

lemma wrap_coordinate_inside:
  "\<not> bound + margin < c \<Longrightarrow> \<not> c < - margin \<Longrightarrow> wrap_coordinate bound margin c = c"
  by (simp add: wrap_coordinate_def)

text \<open>
  C7 (toroidal wrap). \<open>x\<close> and \<open>y\<close> are the coordinates of the boid at index \<open>i\<close> once
  its velocity at the start of the step is added, \<open>x'\<close> and \<open>y'\<close> its coordinates after
  the step. A coordinate above \<open>bound + size'\<close> ends at \<open>- size'\<close>; one below \<open>- size'\<close>
  ends at \<open>bound + size'\<close>, the band from \<open>- size'\<close> to \<open>bound + size'\<close> not being empty (it
  is not for a draw size and a canvas dimension that are not negative); one that is
  neither stays.
\<close>

theorem updateBoids_wrap:
  assumes "i < length (boids m)"
  shows "let x = vec_x (position (boids m ! i)) + vec_x (velocity (boids m ! i));
             y = vec_y (position (boids m ! i)) + vec_y (velocity (boids m ! i));
             x' = vec_x (position (boids (updateBoids width height size' m) ! i));
             y' = vec_y (position (boids (updateBoids width height size' m) ! i))
         in (x > width + size' \<longrightarrow> x' = - size')
          \<and> (x < - size' \<and> - size' \<le> width + size' \<longrightarrow> x' = width + size')
          \<and> (\<not> x > width + size' \<and> \<not> x < - size' \<longrightarrow> x' = x)
          \<and> (y > height + size' \<longrightarrow> y' = - size')
          \<and> (y < - size' \<and> - size' \<le> height + size' \<longrightarrow> y' = height + size')
          \<and> (\<not> y > height + size' \<and> \<not> y < - size' \<longrightarrow> y' = y)"
  by (simp add: Let_def position_updateBoids [OF assms] wrap_coordinate_above
      wrap_coordinate_below wrap_coordinate_inside)


theorem updateBoids_wrap_witness:
  "vec_x (position (boids (updateBoids (Fin 1000) (Fin 800) (Fin 8)
       (default_modifier [boid_at 1008.5 (- 8.5) 1 (- 1)] mouse_unset)) ! 0)) = Fin (- 8)
   \<and> vec_y (position (boids (updateBoids (Fin 1000) (Fin 800) (Fin 8)
       (default_modifier [boid_at 1008.5 (- 8.5) 1 (- 1)] mouse_unset)) ! 0)) = Fin 808"
  using updateBoids_wrap [where i = 0 and width = "Fin 1000" and height = "Fin 800"
      and size' = "Fin 8" and m = "default_modifier [boid_at 1008.5 (- 8.5) 1 (- 1)] mouse_unset"]
  by (simp add: instance_defs less_eq_number_def)

section \<open>Normalisation\<close>

lemma normalize_vec_Fin:
  "normalize_vec (Fin a) (Fin b) =
     (if a = 0 \<and> b = 0 then \<lparr>vec_x = Fin 0, vec_y = Fin 0\<rparr>
      else \<lparr>vec_x = Fin (a / sqrt (a\<^sup>2 + b\<^sup>2)), vec_y = Fin (b / sqrt (a\<^sup>2 + b\<^sup>2))\<rparr>)"
proof (cases "a = 0 \<and> b = 0")
  case True
  then show ?thesis by (simp add: normalize_vec_def Let_def)
next
  case False
  then have "0 < a\<^sup>2 + b\<^sup>2"
    by (simp add: sum_power2_gt_zero_iff)
  then have "0 < sqrt (a\<^sup>2 + b\<^sup>2)" by simp
  with False show ?thesis by (simp add: normalize_vec_def Let_def)
qed

lemma unit_after_division:
  assumes "a \<noteq> 0 \<or> b \<noteq> 0"
  shows "(a / sqrt (a\<^sup>2 + b\<^sup>2))\<^sup>2 + (b / sqrt (a\<^sup>2 + b\<^sup>2))\<^sup>2 = (1::real)"
proof -
  define s where "s = sqrt (a\<^sup>2 + b\<^sup>2)"
  have pos: "0 < a\<^sup>2 + b\<^sup>2"
    using assms by (auto simp: sum_power2_gt_zero_iff)
  then have s2: "s\<^sup>2 = a\<^sup>2 + b\<^sup>2"
    by (simp add: s_def)
  with pos have s0: "s\<^sup>2 \<noteq> 0"
    by linarith
  have "(a / s)\<^sup>2 + (b / s)\<^sup>2 = (a\<^sup>2 + b\<^sup>2) / s\<^sup>2"
    by (simp only: power_divide add_divide_distrib)
  also have "\<dots> = 1"
    unfolding s2 [symmetric] using s0 by simp
  finally show ?thesis by (simp only: s_def)
qed

lemma normalize_vec_unit:
  assumes "a\<^sup>2 + b\<^sup>2 = 1"
  shows "normalize_vec (Fin a) (Fin b) = \<lparr>vec_x = Fin a, vec_y = Fin b\<rparr>"
proof -
  have "\<not> (a = 0 \<and> b = 0)" using assms by auto
  then show ?thesis using assms by (simp add: normalize_vec_Fin)
qed

lemma normalize_vec_idem_Fin:
  "normalize_vec (vec_x (normalize_vec (Fin a) (Fin b))) (vec_y (normalize_vec (Fin a) (Fin b)))
     = normalize_vec (Fin a) (Fin b)"
proof (cases "a = 0 \<and> b = 0")
  case True
  then show ?thesis by (simp add: normalize_vec_Fin)
next
  case False
  then have ne: "a \<noteq> 0 \<or> b \<noteq> 0" by simp
  let ?s = "sqrt (a\<^sup>2 + b\<^sup>2)"
  have "normalize_vec (Fin (a / ?s)) (Fin (b / ?s)) = \<lparr>vec_x = Fin (a / ?s), vec_y = Fin (b / ?s)\<rparr>"
    by (rule normalize_vec_unit) (rule unit_after_division [OF ne])
  with False show ?thesis by (simp add: normalize_vec_Fin)
qed

lemma normalize_vec_NaN:
  "b \<noteq> PInf \<Longrightarrow> b \<noteq> NInf \<Longrightarrow> normalize_vec NaN b = \<lparr>vec_x = Fin 0, vec_y = Fin 0\<rparr>"
  "a \<noteq> PInf \<Longrightarrow> a \<noteq> NInf \<Longrightarrow> normalize_vec a NaN = \<lparr>vec_x = Fin 0, vec_y = Fin 0\<rparr>"
  by (cases b; simp add: normalize_vec_def) (cases a; simp add: normalize_vec_def)

text \<open>
  The arguments of the idempotence below are not infinite, and this cannot be
  dropped: for an infinite argument \<^verbatim>\<open>Math.hypot\<close> gives \<^verbatim>\<open>Infinity\<close> and
  \<^verbatim>\<open>Infinity / Infinity\<close> is NaN. No call of the program passes such an argument: \<^verbatim>\<open>steer\<close>
  passes NaN and \<^verbatim>\<open>undefined\<close>, \<^verbatim>\<open>avoidOthers\<close> and \<^verbatim>\<open>avoidMouse\<close> pass sums and differences
  of coordinates admitted by a test \<^verbatim>\<open>distance < threshold\<close>, which are finite (section
  ``The arguments handed to normalize'').
\<close>

lemma normalize_infinite_component:
  "normalize_vec PInf (Fin 1) = \<lparr>vec_x = NaN, vec_y = Fin 0\<rparr>
   \<and> normalize_vec NaN (Fin 0) = \<lparr>vec_x = Fin 0, vec_y = Fin 0\<rparr>"
  by (simp add: normalize_vec_def)

text \<open>
  C9 (normalisation is total and idempotent). \<^verbatim>\<open>normalize\<close> has no failing branch and
  always returns a vector. For every vector with finite or NaN components, normalising
  twice is normalising once; the zero vector gives the zero vector; a vector of length
  one is returned as it is. Equality is that of the exact arithmetic of the model: the
  rounding of binary64, the floating tolerance of the property, is not modelled.
\<close>

theorem normalize_idempotent:
  assumes "a \<noteq> PInf" "a \<noteq> NInf" "b \<noteq> PInf" "b \<noteq> NInf"
  shows "normalize_vec (vec_x (normalize_vec a b)) (vec_y (normalize_vec a b)) = normalize_vec a b
    \<and> normalize_vec (Fin 0) (Fin 0) = \<lparr>vec_x = Fin 0, vec_y = Fin 0\<rparr>
    \<and> (\<forall>x y. x\<^sup>2 + y\<^sup>2 = 1 \<longrightarrow> normalize_vec (Fin x) (Fin y) = \<lparr>vec_x = Fin x, vec_y = Fin y\<rparr>)"
proof -
  have idem: "normalize_vec (vec_x (normalize_vec a b)) (vec_y (normalize_vec a b)) = normalize_vec a b"
  proof (cases a)
    case (Fin r)
    show ?thesis
    proof (cases b)
      case (Fin q)
      with \<open>a = Fin r\<close> show ?thesis by (simp only: normalize_vec_idem_Fin)
    next
      case NaN
      with assms show ?thesis by (simp add: normalize_vec_NaN normalize_vec_Fin)
    qed (use assms in simp_all)
  next
    case NaN
    with assms show ?thesis by (simp add: normalize_vec_NaN normalize_vec_Fin)
  qed (use assms in simp_all)
  have zero: "normalize_vec (Fin 0) (Fin 0) = \<lparr>vec_x = Fin 0, vec_y = Fin 0\<rparr>"
    by (simp add: normalize_vec_Fin)
  have unit: "\<forall>x y. x\<^sup>2 + y\<^sup>2 = 1 \<longrightarrow> normalize_vec (Fin x) (Fin y) = \<lparr>vec_x = Fin x, vec_y = Fin y\<rparr>"
    by (simp add: normalize_vec_unit)
  from idem zero unit show ?thesis by blast
qed

theorem normalize_idempotent_witness:
  "normalize_vec (vec_x (normalize_vec (Fin 3) (Fin 4))) (vec_y (normalize_vec (Fin 3) (Fin 4)))
     = normalize_vec (Fin 3) (Fin 4)
   \<and> normalize_vec (Fin 0.6) (Fin 0.8) = \<lparr>vec_x = Fin 0.6, vec_y = Fin 0.8\<rparr>"
proof -
  have unit: "(0.6::real)\<^sup>2 + 0.8\<^sup>2 = 1"
    by (simp add: power2_eq_square)
  from normalize_idempotent [of "Fin 3" "Fin 4"] unit show ?thesis
    by blast
qed

section \<open>Alignment: the blend and the rescale\<close>

lemma matchVelocity_loop_sums:
  "matchVelocity_loop m b xs (ax, ay, n) =
     (foldl (+) ax (map (\<lambda>b. vec_x (velocity b))
                      (filter (\<lambda>other. distance (position b) (position other) < visualRange m) xs)),
      foldl (+) ay (map (\<lambda>b. vec_y (velocity b))
                      (filter (\<lambda>other. distance (position b) (position other) < visualRange m) xs)),
      n + length (filter (\<lambda>other. distance (position b) (position other) < visualRange m) xs))"
  by (induction xs arbitrary: ax ay n) simp_all

lemma matchVelocity_loop_neighbours:
  "matchVelocity_loop m (boids m ! i) (boids m) (Fin 0, Fin 0, 0) =
     (sum_numbers (map (\<lambda>b. vec_x (velocity b)) (neighbours m i)),
      sum_numbers (map (\<lambda>b. vec_y (velocity b)) (neighbours m i)),
      length (neighbours m i))"
  by (simp add: matchVelocity_loop_sums neighbours_def sum_numbers_def)

lemma matchVelocity_velocity:
  assumes "i < length (boids m)" and "neighbours m i \<noteq> []"
  shows "velocity (boids (matchVelocity m i) ! i) =
     (if magnitude (blend m i) > maxSpeed m
      then \<lparr>vec_x = (vec_x (blend m i) / magnitude (blend m i)) * maxSpeed m,
            vec_y = (vec_y (blend m i) / magnitude (blend m i)) * maxSpeed m\<rparr>
      else if magnitude (blend m i) < maxSpeed m * Fin 0.5
      then \<lparr>vec_x = (vec_x (blend m i) / magnitude (blend m i)) * maxSpeed m * Fin 0.75,
            vec_y = (vec_y (blend m i) / magnitude (blend m i)) * maxSpeed m * Fin 0.75\<rparr>
      else blend m i)"
  using assms
  by (simp add: matchVelocity_def matchVelocity_loop_neighbours blend_def average_velocity_def
      magnitude_def Let_def)


lemma is_finite_iff: "is_finite a \<longleftrightarrow> (\<exists>r. a = Fin r)"
  by (cases a) simp_all

lemma is_finite_foldl_plus:
  "is_finite a \<Longrightarrow> list_all is_finite xs \<Longrightarrow> is_finite (foldl (+) a xs)"
  by (induction xs arbitrary: a) (auto simp: is_finite_iff)

lemma is_finite_sum_numbers: "list_all is_finite xs \<Longrightarrow> is_finite (sum_numbers xs)"
  by (simp add: sum_numbers_def is_finite_foldl_plus)

lemma is_finite_divide_count: "is_finite a \<Longrightarrow> 0 < n \<Longrightarrow> is_finite (a / Fin (real n))"
  by (auto simp: is_finite_iff)

lemma is_finite_blend_component:
  "is_finite v \<Longrightarrow> is_finite a \<Longrightarrow> is_finite f \<Longrightarrow> is_finite (v + (a - v) * f)"
  by (auto simp: is_finite_iff)

lemma finite_vec_blend:
  assumes "i < length (boids m)" and "neighbours m i \<noteq> []"
    and "list_all (\<lambda>b. finite_vec (velocity b)) (boids m)"
    and "is_finite (matchingFactor m)"
  shows "finite_vec (blend m i)"
proof -
  have all: "list_all (\<lambda>b. finite_vec (velocity b)) (neighbours m i)"
    using assms(3) by (simp add: neighbours_def list_all_iff)
  have own: "finite_vec (velocity (boids m ! i))"
    using assms(1,3) by (simp add: list_all_length)
  have n: "0 < length (neighbours m i)"
    using assms(2) by simp
  have sx: "is_finite (sum_numbers (map (\<lambda>b. vec_x (velocity b)) (neighbours m i)))"
    using all by (intro is_finite_sum_numbers) (simp add: list_all_iff finite_vec_def)
  have sy: "is_finite (sum_numbers (map (\<lambda>b. vec_y (velocity b)) (neighbours m i)))"
    using all by (intro is_finite_sum_numbers) (simp add: list_all_iff finite_vec_def)
  show ?thesis
    using own assms(4) is_finite_divide_count [OF sx n] is_finite_divide_count [OF sy n]
    by (simp add: blend_def average_velocity_def finite_vec_def Let_def is_finite_blend_component)
qed

lemma magnitude_Fin: "magnitude \<lparr>vec_x = Fin a, vec_y = Fin b\<rparr> = Fin (sqrt (a\<^sup>2 + b\<^sup>2))"
  by (simp add: magnitude_def pow2_def power2_eq_square not_less)

lemma sqrt_rescaled:
  fixes a b c :: real
  assumes "a \<noteq> 0 \<or> b \<noteq> 0" and "0 \<le> c"
  shows "sqrt ((a / sqrt (a\<^sup>2 + b\<^sup>2) * c)\<^sup>2 + (b / sqrt (a\<^sup>2 + b\<^sup>2) * c)\<^sup>2) = c"
proof -
  let ?s = "sqrt (a\<^sup>2 + b\<^sup>2)"
  have "(a / ?s * c)\<^sup>2 + (b / ?s * c)\<^sup>2 = ((a / ?s)\<^sup>2 + (b / ?s)\<^sup>2) * c\<^sup>2"
    by (simp only: power_mult_distrib distrib_right)
  also have "\<dots> = c\<^sup>2"
    by (simp only: unit_after_division [OF assms(1)] mult_1)
  finally show ?thesis using assms(2) by simp
qed

lemma magnitude_rescaled:
  assumes "a \<noteq> 0 \<or> b \<noteq> 0" and "0 \<le> c"
  shows "magnitude \<lparr>vec_x = (Fin a / Fin (sqrt (a\<^sup>2 + b\<^sup>2))) * Fin c,
                    vec_y = (Fin b / Fin (sqrt (a\<^sup>2 + b\<^sup>2))) * Fin c\<rparr> = Fin c"
proof -
  let ?s = "sqrt (a\<^sup>2 + b\<^sup>2)"
  have s: "?s \<noteq> 0"
    using assms(1) by auto
  have x: "(Fin a / Fin ?s) * Fin c = Fin (a / ?s * c)"
    using s by simp
  have y: "(Fin b / Fin ?s) * Fin c = Fin (b / ?s * c)"
    using s by simp
  show ?thesis
    unfolding x y magnitude_Fin using sqrt_rescaled [OF assms] by simp
qed


lemma magnitude_rescaled_floor:
  assumes "a \<noteq> 0 \<or> b \<noteq> 0" and "0 \<le> c"
  shows "magnitude \<lparr>vec_x = (Fin a / Fin (sqrt (a\<^sup>2 + b\<^sup>2))) * Fin c * Fin 0.75,
                    vec_y = (Fin b / Fin (sqrt (a\<^sup>2 + b\<^sup>2))) * Fin c * Fin 0.75\<rparr>
         = Fin c * Fin 0.75"
proof -
  let ?s = "sqrt (a\<^sup>2 + b\<^sup>2)"
  have s: "?s \<noteq> 0"
    using assms(1) by auto
  have x: "(Fin a / Fin ?s) * Fin c * Fin 0.75 = (Fin a / Fin ?s) * Fin (c * 0.75)"
    using s by simp
  have y: "(Fin b / Fin ?s) * Fin c * Fin 0.75 = (Fin b / Fin ?s) * Fin (c * 0.75)"
    using s by simp
  have "0 \<le> c * 0.75" using assms(2) by simp
  from magnitude_rescaled [OF assms(1) this] show ?thesis
    unfolding x y by simp
qed

text \<open>
  Away from speed zero the rule is as the specification words it. With at least one
  neighbour, finite velocities and matching factor and a finite maximal speed that is
  not negative, \<open>u\<close> is the velocity blended towards the average of the neighbours and
  \<open>s\<close> its speed. If \<open>s\<close> exceeds the maximal speed the new velocity is \<open>u\<close> rescaled and
  its magnitude is the maximal speed; else if \<open>s\<close> is below half the maximal speed and is
  not zero, it is \<open>u\<close> rescaled and its magnitude is three quarters of the maximal speed;
  if neither, it is \<open>u\<close>.
\<close>

lemma matchVelocity_blend_and_rescale:
  assumes "i < length (boids m)" and "neighbours m i \<noteq> []"
    and "list_all (\<lambda>b. finite_vec (velocity b)) (boids m)"
    and "matchingFactor m = Fin f" and "maxSpeed m = Fin M" and "0 \<le> M"
  shows "let u = blend m i; s = magnitude u; v' = velocity (boids (matchVelocity m i) ! i)
         in (s > maxSpeed m \<longrightarrow>
               v' = \<lparr>vec_x = (vec_x u / s) * maxSpeed m, vec_y = (vec_y u / s) * maxSpeed m\<rparr>
               \<and> magnitude v' = maxSpeed m)
          \<and> (\<not> s > maxSpeed m \<and> s < maxSpeed m * Fin 0.5 \<and> s \<noteq> Fin 0 \<longrightarrow>
               v' = \<lparr>vec_x = (vec_x u / s) * maxSpeed m * Fin 0.75,
                     vec_y = (vec_y u / s) * maxSpeed m * Fin 0.75\<rparr>
               \<and> magnitude v' = maxSpeed m * Fin 0.75)
          \<and> (\<not> s > maxSpeed m \<and> \<not> s < maxSpeed m * Fin 0.5 \<longrightarrow> v' = u)"
proof -
  have "finite_vec (blend m i)"
    using assms(1-4) by (intro finite_vec_blend) simp_all
  then obtain a b where u: "blend m i = \<lparr>vec_x = Fin a, vec_y = Fin b\<rparr>"
    by (cases "blend m i") (auto simp: finite_vec_def is_finite_iff)
  let ?s = "sqrt (a\<^sup>2 + b\<^sup>2)"
  have s: "magnitude (blend m i) = Fin ?s"
    by (simp add: u magnitude_Fin)
  note v = matchVelocity_velocity [OF assms(1,2), unfolded s assms(5)]
  have ne: "?s \<noteq> 0 \<Longrightarrow> a \<noteq> 0 \<or> b \<noteq> 0"
    by auto
  have above: "magnitude \<lparr>vec_x = (Fin a / Fin ?s) * Fin M, vec_y = (Fin b / Fin ?s) * Fin M\<rparr> = Fin M"
    if "M < ?s"
  proof -
    from that assms(6) have "?s \<noteq> 0" by linarith
    then have "a \<noteq> 0 \<or> b \<noteq> 0" by (rule ne)
    then show ?thesis using assms(6) by (rule magnitude_rescaled)
  qed
  have below: "magnitude \<lparr>vec_x = (Fin a / Fin ?s) * Fin M * Fin 0.75,
                          vec_y = (Fin b / Fin ?s) * Fin M * Fin 0.75\<rparr> = Fin M * Fin 0.75"
    if "?s \<noteq> 0"
  proof -
    from that have "a \<noteq> 0 \<or> b \<noteq> 0" by (rule ne)
    then show ?thesis using assms(6) by (rule magnitude_rescaled_floor)
  qed
  show ?thesis
    unfolding Let_def s assms(5) v
    using above below by (simp add: u)
qed

text \<open>
  Two boids \<open>10\<close> apart with different velocities, default parameters. With velocities
  \<open>0.1\<close> and \<open>0.3\<close> the average is \<open>0.2\<close>, the first blends to \<open>0.105\<close>, below \<open>0.225\<close>, and
  is raised to \<open>0.3375\<close>; with \<open>3\<close> and \<open>1\<close> the average is \<open>2\<close>, the first blends to \<open>2.95\<close>
  and is cut to \<open>0.45\<close>.
\<close>

lemma matchVelocity_floor_example:
  "blend (default_modifier [boid_at 0 0 0.1 0, boid_at 10 0 0.3 0] mouse_unset) 0
     = \<lparr>vec_x = Fin 0.105, vec_y = Fin 0\<rparr>
   \<and> velocity (boids (matchVelocity
         (default_modifier [boid_at 0 0 0.1 0, boid_at 10 0 0.3 0] mouse_unset) 0) ! 0)
     = \<lparr>vec_x = Fin 0.3375, vec_y = Fin 0\<rparr>"
proof -
  let ?m = "default_modifier [boid_at 0 0 0.1 0, boid_at 10 0 0.3 0] mouse_unset"
  have i: "0 < length (boids ?m)"
    by (simp add: instance_defs)
  have n: "neighbours ?m 0 \<noteq> []"
    by (simp add: instance_defs neighbours_def distance_def sqrt_pow2_axis)
  have fin: "list_all (\<lambda>b. finite_vec (velocity b)) (boids ?m)"
    by (simp add: instance_defs finite_vec_def)
  have mf: "matchingFactor ?m = Fin 0.05" and mx: "maxSpeed ?m = Fin 0.45"
    by (simp_all add: instance_defs)
  have nn: "(0::real) \<le> 0.45"
    by simp
  have b: "blend ?m 0 = \<lparr>vec_x = Fin 0.105, vec_y = Fin 0\<rparr>"
    by (simp add: instance_defs blend_def average_velocity_def neighbours_def sum_numbers_def
        distance_def sqrt_pow2_axis)
  have s: "magnitude (blend ?m 0) = Fin 0.105"
    by (simp add: b magnitude_def sqrt_pow2_axis)
  have branch: "\<not> magnitude (blend ?m 0) > maxSpeed ?m
      \<and> magnitude (blend ?m 0) < maxSpeed ?m * Fin 0.5 \<and> magnitude (blend ?m 0) \<noteq> Fin 0"
    by (simp add: s mx)
  with matchVelocity_blend_and_rescale [OF i n fin mf mx nn]
  have "velocity (boids (matchVelocity ?m 0) ! 0)
      = \<lparr>vec_x = (vec_x (blend ?m 0) / magnitude (blend ?m 0)) * maxSpeed ?m * Fin 0.75,
         vec_y = (vec_y (blend ?m 0) / magnitude (blend ?m 0)) * maxSpeed ?m * Fin 0.75\<rparr>"
    unfolding Let_def by blast
  then have "velocity (boids (matchVelocity ?m 0) ! 0)
      = \<lparr>vec_x = (vec_x (blend ?m 0) / Fin 0.105) * Fin 0.45 * Fin 0.75,
         vec_y = (vec_y (blend ?m 0) / Fin 0.105) * Fin 0.45 * Fin 0.75\<rparr>"
    by (simp only: s mx)
  then have "velocity (boids (matchVelocity ?m 0) ! 0) = \<lparr>vec_x = Fin 0.3375, vec_y = Fin 0\<rparr>"
    by (simp add: b)
  with b show ?thesis
    by blast
qed

lemma matchVelocity_cap_example:
  "blend (default_modifier [boid_at 0 0 3 0, boid_at 10 0 1 0] mouse_unset) 0
     = \<lparr>vec_x = Fin 2.95, vec_y = Fin 0\<rparr>
   \<and> velocity (boids (matchVelocity
         (default_modifier [boid_at 0 0 3 0, boid_at 10 0 1 0] mouse_unset) 0) ! 0)
     = \<lparr>vec_x = Fin 0.45, vec_y = Fin 0\<rparr>"
proof -
  let ?m = "default_modifier [boid_at 0 0 3 0, boid_at 10 0 1 0] mouse_unset"
  have i: "0 < length (boids ?m)"
    by (simp add: instance_defs)
  have n: "neighbours ?m 0 \<noteq> []"
    by (simp add: instance_defs neighbours_def distance_def sqrt_pow2_axis)
  have fin: "list_all (\<lambda>b. finite_vec (velocity b)) (boids ?m)"
    by (simp add: instance_defs finite_vec_def)
  have mf: "matchingFactor ?m = Fin 0.05" and mx: "maxSpeed ?m = Fin 0.45"
    by (simp_all add: instance_defs)
  have nn: "(0::real) \<le> 0.45"
    by simp
  have b: "blend ?m 0 = \<lparr>vec_x = Fin 2.95, vec_y = Fin 0\<rparr>"
    by (simp add: instance_defs blend_def average_velocity_def neighbours_def sum_numbers_def
        distance_def sqrt_pow2_axis)
  have s: "magnitude (blend ?m 0) = Fin 2.95"
    by (simp add: b magnitude_def sqrt_pow2_axis)
  have branch: "magnitude (blend ?m 0) > maxSpeed ?m"
    by (simp add: s mx)
  with matchVelocity_blend_and_rescale [OF i n fin mf mx nn]
  have "velocity (boids (matchVelocity ?m 0) ! 0)
      = \<lparr>vec_x = (vec_x (blend ?m 0) / magnitude (blend ?m 0)) * maxSpeed ?m,
         vec_y = (vec_y (blend ?m 0) / magnitude (blend ?m 0)) * maxSpeed ?m\<rparr>"
    unfolding Let_def by blast
  then have "velocity (boids (matchVelocity ?m 0) ! 0)
      = \<lparr>vec_x = (vec_x (blend ?m 0) / Fin 2.95) * Fin 0.45,
         vec_y = (vec_y (blend ?m 0) / Fin 2.95) * Fin 0.45\<rparr>"
    by (simp only: s mx)
  then have "velocity (boids (matchVelocity ?m 0) ! 0) = \<lparr>vec_x = Fin 0.45, vec_y = Fin 0\<rparr>"
    by (simp add: b)
  with b show ?thesis
    by blast
qed

text \<open>
  C5 (alignment blends the velocity, then caps the speed or raises it to three quarters
  of the maximal speed). A single boid at rest, default parameters: it is its own
  neighbour, its blended velocity is zero, the speed \<open>0\<close> is below half the maximal
  speed, and the velocity the code writes is not one of magnitude \<open>0.75 \<times> 0.45\<close>: both
  components are \<open>(0 / 0) \<times> 0.45 \<times> 0.75\<close>, NaN. This is the division by \<^verbatim>\<open>speed\<close> of lines
  139 and 140, which no test of \<^verbatim>\<open>speed\<close> guards.
\<close>

theorem matchVelocity_zero_speed_not_rescaled:
  "neighbours (default_modifier [boid_at 100 100 0 0] mouse_unset) 0 \<noteq> []
   \<and> magnitude (blend (default_modifier [boid_at 100 100 0 0] mouse_unset) 0)
       < maxSpeed (default_modifier [boid_at 100 100 0 0] mouse_unset) * Fin 0.5
   \<and> magnitude (velocity (boids (matchVelocity (default_modifier [boid_at 100 100 0 0] mouse_unset) 0) ! 0))
       \<noteq> maxSpeed (default_modifier [boid_at 100 100 0 0] mouse_unset) * Fin 0.75"
proof -
  let ?m = "default_modifier [boid_at 100 100 0 0] mouse_unset"
  have n: "neighbours ?m 0 \<noteq> []"
    by (simp add: instance_defs neighbours_def distance_def sqrt_pow2_axis)
  have b: "blend ?m 0 = \<lparr>vec_x = Fin 0, vec_y = Fin 0\<rparr>"
    by (simp add: instance_defs blend_def average_velocity_def neighbours_def sum_numbers_def
        distance_def sqrt_pow2_axis)
  have s: "magnitude (blend ?m 0) = Fin 0"
    by (simp add: b magnitude_def sqrt_pow2_axis)
  have mx: "maxSpeed ?m = Fin 0.45"
    by (simp add: instance_defs)
  have "matchVelocity ?m 0
      = default_modifier [(boid_at 100 100 0 0)\<lparr>velocity := \<lparr>vec_x = NaN, vec_y = NaN\<rparr>\<rparr>] mouse_unset"
    by (simp add: instance_defs matchVelocity_def distance_def pow2_def)
  then have v: "velocity (boids (matchVelocity ?m 0) ! 0) = \<lparr>vec_x = NaN, vec_y = NaN\<rparr>"
    by (simp add: instance_defs)
  have below: "magnitude (blend ?m 0) < maxSpeed ?m * Fin 0.5"
    by (simp add: s mx)
  have nan: "magnitude (velocity (boids (matchVelocity ?m 0) ! 0)) \<noteq> maxSpeed ?m * Fin 0.75"
    by (simp add: v mx magnitude_def pow2_def)
  from n below nan show ?thesis
    by blast
qed

section \<open>Separation from the other boids\<close>

lemma avoidOthers_loop_sums:
  "avoidOthers_loop m i b j xs (ax, ay) =
     (foldl (+) ax
        (map (\<lambda>(k, other). vec_x (position b) - vec_x (position other))
           (filter (\<lambda>(k, other). k \<noteq> i \<and> distance (position b) (position other) < minDistanceBoid m)
              (enumerate j xs))),
      foldl (+) ay
        (map (\<lambda>(k, other). vec_y (position b) - vec_y (position other))
           (filter (\<lambda>(k, other). k \<noteq> i \<and> distance (position b) (position other) < minDistanceBoid m)
              (enumerate j xs))))"
  by (induction xs arbitrary: j ax ay) (simp_all add: Let_def)

lemma avoidOthers_loop_separation:
  "avoidOthers_loop m i (boids m ! i) 0 (boids m) (Fin 0, Fin 0)
     = (vec_x (separation_sum m i), vec_y (separation_sum m i))"
  by (simp add: avoidOthers_loop_sums separation_sum_def close_others_def sum_numbers_def)

lemma avoidOthers_velocity:
  assumes "i < length (boids m)"
  shows "velocity (boids (avoidOthers m i) ! i) = spec_avoidOthers_velocity m i"
  using assms
  by (simp add: avoidOthers_def avoidOthers_loop_separation spec_avoidOthers_velocity_def Let_def)

lemma distance_Fin:
  "distance \<lparr>vec_x = Fin a, vec_y = Fin b\<rparr> \<lparr>vec_x = Fin c, vec_y = Fin d\<rparr>
     = Fin (sqrt ((a - c)\<^sup>2 + (b - d)\<^sup>2))"
  by (simp add: distance_def pow2_def power2_eq_square not_less)

lemma normalize_vec_length:
  assumes "sqrt (a\<^sup>2 + b\<^sup>2) = d" and "0 < d"
  shows "normalize_vec (Fin a) (Fin b) = \<lparr>vec_x = Fin (a / d), vec_y = Fin (b / d)\<rparr>"
  using assms by (auto simp: normalize_vec_def Let_def)

lemma two_boids_separation:
  assumes two: "boids m = [b0, b1]"
    and p0: "position b0 = \<lparr>vec_x = Fin x0, vec_y = Fin y0\<rparr>"
    and p1: "position b1 = \<lparr>vec_x = Fin x1, vec_y = Fin y1\<rparr>"
    and d: "distance (position b0) (position b1) = Fin d" and pos: "0 < d"
    and near: "Fin d < minDistanceBoid m"
    and f: "avoidFactorBoid m = Fin f" and r: "reduceFactor m = Fin r"
  shows "velocity (boids (avoidOthers m 0) ! 0)
           = \<lparr>vec_x = vec_x (velocity b0) + Fin ((x0 - x1) / d * f * r),
              vec_y = vec_y (velocity b0) + Fin ((y0 - y1) / d * f * r)\<rparr>"
    and "velocity (boids (avoidOthers m 1) ! 1)
           = \<lparr>vec_x = vec_x (velocity b1) + Fin (- ((x0 - x1) / d * f * r)),
              vec_y = vec_y (velocity b1) + Fin (- ((y0 - y1) / d * f * r))\<rparr>"
proof -
  have d01: "sqrt ((x0 - x1)\<^sup>2 + (y0 - y1)\<^sup>2) = d"
    using d by (simp add: p0 p1 distance_Fin)
  have d10: "sqrt ((x1 - x0)\<^sup>2 + (y1 - y0)\<^sup>2) = d"
    using d01 by (simp add: power2_commute)
  have near10: "distance (position b1) (position b0) < minDistanceBoid m"
    using near d10 by (simp add: p0 p1 distance_Fin)
  have near01: "distance (position b0) (position b1) < minDistanceBoid m"
    using near d by simp
  have s0: "separation_sum m 0 = \<lparr>vec_x = Fin (x0 - x1), vec_y = Fin (y0 - y1)\<rparr>"
    using near01 by (simp add: separation_sum_def close_others_def sum_numbers_def two p0 p1)
  have s1: "separation_sum m (Suc 0) = \<lparr>vec_x = Fin (x1 - x0), vec_y = Fin (y1 - y0)\<rparr>"
    using near10 by (simp add: separation_sum_def close_others_def sum_numbers_def two p0 p1)
  have n1: "normalize_vec (Fin (x1 - x0)) (Fin (y1 - y0))
      = \<lparr>vec_x = Fin (- ((x0 - x1) / d)), vec_y = Fin (- ((y0 - y1) / d))\<rparr>"
    by (simp add: normalize_vec_length [OF d10 pos] diff_divide_distrib)
  show "velocity (boids (avoidOthers m 0) ! 0)
           = \<lparr>vec_x = vec_x (velocity b0) + Fin ((x0 - x1) / d * f * r),
              vec_y = vec_y (velocity b0) + Fin ((y0 - y1) / d * f * r)\<rparr>"
    by (simp add: avoidOthers_velocity two spec_avoidOthers_velocity_def s0
        normalize_vec_length [OF d01 pos] f r Let_def)
  show "velocity (boids (avoidOthers m 1) ! 1)
           = \<lparr>vec_x = vec_x (velocity b1) + Fin (- ((x0 - x1) / d * f * r)),
              vec_y = vec_y (velocity b1) + Fin (- ((y0 - y1) / d * f * r))\<rparr>"
    by (simp add: avoidOthers_velocity two spec_avoidOthers_velocity_def s1 n1 f r Let_def)
qed

lemma displacement_projection:
  fixes dx dy d c :: real
  assumes "sqrt (dx\<^sup>2 + dy\<^sup>2) = d" and "0 < d" and "0 < c"
  shows "0 < (dx / d * c) * dx + (dy / d * c) * dy"
proof -
  have sq: "dx\<^sup>2 + dy\<^sup>2 = d\<^sup>2"
    using assms(1) by (metis real_sqrt_pow2 sum_power2_ge_zero)
  have "(dx / d * c) * dx + (dy / d * c) * dy = (dx\<^sup>2 + dy\<^sup>2) * (c / d)"
    by (simp add: power2_eq_square algebra_simps add_divide_distrib)
  also have "\<dots> = d * c"
    unfolding sq using assms(2) by (simp add: power2_eq_square)
  finally show ?thesis using assms(2,3) by simp
qed


text \<open>One whole step of two boids that move the same way, phase by phase.\<close>

lemmas rule_eval =
  instance_defs distance_def normalize_vec_def sqrt_pow2_axis hypot_axis

lemma two_boids_one_step:
  "updateBoids (Fin 1000) (Fin 800) (Fin 8)
     (default_modifier [boid_at 300 400 0.5 0, boid_at 305 400 0.5 0] (mouse_at 900 400))
   = default_modifier [boid_at 300.5 400 0.45 0, boid_at 305.5 400 0.45 0] (mouse_at 900 400)"
proof -
  let ?W = "Fin 1000" and ?H = "Fin 800" and ?S = "Fin 8"
  let ?m0 = "default_modifier [boid_at 300 400 0.5 0, boid_at 305 400 0.5 0] (mouse_at 900 400)"
  let ?a1 = "default_modifier [boid_at 300.5 400 0.5 0, boid_at 305 400 0.5 0] (mouse_at 900 400)"
  let ?a2 = "default_modifier [boid_at 300.5 400 0.475 0, boid_at 305 400 0.5 0] (mouse_at 900 400)"
  let ?a3 = "default_modifier [boid_at 300.5 400 0.45 0, boid_at 305 400 0.5 0] (mouse_at 900 400)"
  let ?b1 = "default_modifier [boid_at 300.5 400 0.45 0, boid_at 305.5 400 0.5 0] (mouse_at 900 400)"
  let ?b2 = "default_modifier [boid_at 300.5 400 0.45 0, boid_at 305.5 400 0.525 0] (mouse_at 900 400)"
  let ?b3 = "default_modifier [boid_at 300.5 400 0.45 0, boid_at 305.5 400 0.45 0] (mouse_at 900 400)"
  have a_int: "integrate ?m0 0 = ?a1"
    by (simp add: instance_defs integrate_def)
  have a_coh: "coherence ?a1 0 = ?a1"
    by (rule coherence_noop [where a = "0.035" and c = "0.05"]) (simp_all add: instance_defs)
  have a_sep: "avoidOthers ?a1 0 = ?a2"
    by (simp add: rule_eval avoidOthers_def del: Math_hypot.simps(1))
  have a_mou: "avoidMouse ?a2 0 = ?a2"
    by (simp add: rule_eval avoidMouse_def del: Math_hypot.simps(1))
  have a_ali: "matchVelocity ?a2 0 = ?a3"
    by (simp add: rule_eval matchVelocity_def del: Math_hypot.simps(1))
  have a_wrap: "boundary_wrap ?W ?H ?S ?a3 0 = ?a3"
    by (simp add: instance_defs boundary_wrap_def wrap_coordinate_def)
  have a: "updateBoid ?W ?H ?S ?m0 0 = ?a3"
    by (simp only: updateBoid_eq_spec spec_agent_step_def a_int a_coh a_sep a_mou a_ali a_wrap)
  have b_int: "integrate ?a3 (Suc 0) = ?b1"
    by (simp add: instance_defs integrate_def)
  have b_coh: "coherence ?b1 (Suc 0) = ?b1"
    by (rule coherence_noop [where a = "0.035" and c = "0.05"]) (simp_all add: instance_defs)
  have b_sep: "avoidOthers ?b1 (Suc 0) = ?b2"
    by (simp add: rule_eval avoidOthers_def del: Math_hypot.simps(1))
  have b_mou: "avoidMouse ?b2 (Suc 0) = ?b2"
    by (simp add: rule_eval avoidMouse_def del: Math_hypot.simps(1))
  have b_ali: "matchVelocity ?b2 (Suc 0) = ?b3"
    by (simp add: rule_eval matchVelocity_def del: Math_hypot.simps(1))
  have b_wrap: "boundary_wrap ?W ?H ?S ?b3 (Suc 0) = ?b3"
    by (simp add: instance_defs boundary_wrap_def wrap_coordinate_def)
  have b: "updateBoid ?W ?H ?S ?a3 (Suc 0) = ?b3"
    by (simp only: updateBoid_eq_spec spec_agent_step_def b_int b_coh b_sep b_mou b_ali b_wrap)
  have idx: "[0..<length (boids ?m0)] = [0, Suc 0]"
    by (simp add: instance_defs upt_rec)
  show ?thesis
    unfolding updateBoids_def idx by (simp only: fold_simps a b id_apply comp_apply)
qed

text \<open>
  C6 as stated (after one step, two agents 5 apart have velocity deltas of opposite
  sign along their displacement axis) fails. Two boids at \<open>(300, 400)\<close> and \<open>(305, 400)\<close>,
  both with velocity \<open>(0.5, 0)\<close>, default parameters, the pointer far away at
  \<open>(900, 400)\<close>, a \<open>1000 \<times> 800\<close> canvas: separation gives them \<open>0.475\<close> and \<open>0.525\<close>, and
  \<^verbatim>\<open>matchVelocity\<close>, which runs after it in the same step, rescales both to the maximal
  speed \<open>0.45\<close>. Both deltas along the axis are \<open>- 0.05\<close>.
\<close>

theorem two_boids_one_step_same_deltas:
  "vec_x (velocity (boids (updateBoids (Fin 1000) (Fin 800) (Fin 8)
       (default_modifier [boid_at 300 400 0.5 0, boid_at 305 400 0.5 0] (mouse_at 900 400))) ! 0))
     - vec_x (velocity (boids
         (default_modifier [boid_at 300 400 0.5 0, boid_at 305 400 0.5 0] (mouse_at 900 400)) ! 0))
     = Fin (- 0.05)
   \<and> vec_x (velocity (boids (updateBoids (Fin 1000) (Fin 800) (Fin 8)
       (default_modifier [boid_at 300 400 0.5 0, boid_at 305 400 0.5 0] (mouse_at 900 400))) ! 1))
     - vec_x (velocity (boids
         (default_modifier [boid_at 300 400 0.5 0, boid_at 305 400 0.5 0] (mouse_at 900 400)) ! 1))
     = Fin (- 0.05)"
  unfolding two_boids_one_step by (simp add: instance_defs)

text \<open>
  C6, amended. For every agent, \<^verbatim>\<open>avoidOthers\<close> sets the velocity to the one of the
  specification: the displacements from the other boids nearer than \<^verbatim>\<open>minDistanceBoid\<close>
  are summed, the sum is normalised and added scaled by \<^verbatim>\<open>avoidFactorBoid\<close> and
  \<^verbatim>\<open>reduceFactor\<close>. In particular, for two boids alone at a distance \<open>d\<close> that is positive
  and below \<^verbatim>\<open>minDistanceBoid\<close> (\<open>5\<close> and \<open>20\<close> in the witness), with a positive product of
  the two factors, the rule adds to their velocities increments that are the negatives
  of each other, the first along the displacement from the second to the first.
\<close>

theorem avoidOthers_rule:
  "(i < length (boids m) \<longrightarrow>
      velocity (boids (avoidOthers m i) ! i) = spec_avoidOthers_velocity m i)
   \<and> (boids m' = [b0, b1]
        \<and> position b0 = \<lparr>vec_x = Fin x0, vec_y = Fin y0\<rparr>
        \<and> position b1 = \<lparr>vec_x = Fin x1, vec_y = Fin y1\<rparr>
        \<and> distance (position b0) (position b1) = Fin d \<and> 0 < d \<and> Fin d < minDistanceBoid m'
        \<and> avoidFactorBoid m' = Fin f \<and> reduceFactor m' = Fin r \<and> 0 < f * r \<longrightarrow>
      (let dx = (x0 - x1) / d * f * r; dy = (y0 - y1) / d * f * r
       in velocity (boids (avoidOthers m' 0) ! 0)
            = \<lparr>vec_x = vec_x (velocity b0) + Fin dx, vec_y = vec_y (velocity b0) + Fin dy\<rparr>
          \<and> velocity (boids (avoidOthers m' 1) ! 1)
            = \<lparr>vec_x = vec_x (velocity b1) + Fin (- dx), vec_y = vec_y (velocity b1) + Fin (- dy)\<rparr>
          \<and> 0 < dx * (x0 - x1) + dy * (y0 - y1)))"
proof (intro conjI impI)
  assume "i < length (boids m)"
  then show "velocity (boids (avoidOthers m i) ! i) = spec_avoidOthers_velocity m i"
    by (rule avoidOthers_velocity)
next
  assume h: "boids m' = [b0, b1]
        \<and> position b0 = \<lparr>vec_x = Fin x0, vec_y = Fin y0\<rparr>
        \<and> position b1 = \<lparr>vec_x = Fin x1, vec_y = Fin y1\<rparr>
        \<and> distance (position b0) (position b1) = Fin d \<and> 0 < d \<and> Fin d < minDistanceBoid m'
        \<and> avoidFactorBoid m' = Fin f \<and> reduceFactor m' = Fin r \<and> 0 < f * r"
  then have two: "boids m' = [b0, b1]"
    and p0: "position b0 = \<lparr>vec_x = Fin x0, vec_y = Fin y0\<rparr>"
    and p1: "position b1 = \<lparr>vec_x = Fin x1, vec_y = Fin y1\<rparr>"
    and d: "distance (position b0) (position b1) = Fin d" and pos: "0 < d"
    and near: "Fin d < minDistanceBoid m'"
    and f: "avoidFactorBoid m' = Fin f" and r: "reduceFactor m' = Fin r" and fr: "0 < f * r"
    by blast+
  have len: "sqrt ((x0 - x1)\<^sup>2 + (y0 - y1)\<^sup>2) = d"
    using d by (simp add: p0 p1 distance_Fin)
  have "0 < ((x0 - x1) / d * (f * r)) * (x0 - x1) + ((y0 - y1) / d * (f * r)) * (y0 - y1)"
    using len pos fr by (rule displacement_projection)
  then have proj: "0 < ((x0 - x1) / d * f * r) * (x0 - x1) + ((y0 - y1) / d * f * r) * (y0 - y1)"
    by (simp add: mult.assoc)
  show "let dx = (x0 - x1) / d * f * r; dy = (y0 - y1) / d * f * r
       in velocity (boids (avoidOthers m' 0) ! 0)
            = \<lparr>vec_x = vec_x (velocity b0) + Fin dx, vec_y = vec_y (velocity b0) + Fin dy\<rparr>
          \<and> velocity (boids (avoidOthers m' 1) ! 1)
            = \<lparr>vec_x = vec_x (velocity b1) + Fin (- dx), vec_y = vec_y (velocity b1) + Fin (- dy)\<rparr>
          \<and> 0 < dx * (x0 - x1) + dy * (y0 - y1)"
    unfolding Let_def
    using two_boids_separation [OF two p0 p1 d pos near f r] proj by blast
qed

theorem avoidOthers_rule_witness:
  "velocity (boids (avoidOthers (default_modifier [boid_at 300 0 0 0, boid_at 305 0 0 0] mouse_unset) 0) ! 0)
     = \<lparr>vec_x = Fin (- 0.025), vec_y = Fin 0\<rparr>
   \<and> velocity (boids (avoidOthers (default_modifier [boid_at 300 0 0 0, boid_at 305 0 0 0] mouse_unset) 1) ! 1)
     = \<lparr>vec_x = Fin 0.025, vec_y = Fin 0\<rparr>"
proof -
  let ?m = "default_modifier [boid_at 300 0 0 0, boid_at 305 0 0 0] mouse_unset"
  have h: "boids ?m = [boid_at 300 0 0 0, boid_at 305 0 0 0]
        \<and> position (boid_at 300 0 0 0) = \<lparr>vec_x = Fin 300, vec_y = Fin 0\<rparr>
        \<and> position (boid_at 305 0 0 0) = \<lparr>vec_x = Fin 305, vec_y = Fin 0\<rparr>
        \<and> distance (position (boid_at 300 0 0 0)) (position (boid_at 305 0 0 0)) = Fin 5
        \<and> (0::real) < 5 \<and> Fin 5 < minDistanceBoid ?m
        \<and> avoidFactorBoid ?m = Fin 0.05 \<and> reduceFactor ?m = Fin 0.5 \<and> (0::real) < 0.05 * 0.5"
    by (simp add: instance_defs distance_def sqrt_pow2_axis)
  have "let dx = (300 - 305) / 5 * 0.05 * 0.5; dy = (0 - 0) / 5 * 0.05 * (0.5::real)
       in velocity (boids (avoidOthers ?m 0) ! 0)
            = \<lparr>vec_x = vec_x (velocity (boid_at 300 0 0 0)) + Fin dx,
               vec_y = vec_y (velocity (boid_at 300 0 0 0)) + Fin dy\<rparr>
          \<and> velocity (boids (avoidOthers ?m 1) ! 1)
            = \<lparr>vec_x = vec_x (velocity (boid_at 305 0 0 0)) + Fin (- dx),
               vec_y = vec_y (velocity (boid_at 305 0 0 0)) + Fin (- dy)\<rparr>
          \<and> 0 < dx * (300 - 305) + dy * (0 - 0)"
    using avoidOthers_rule [where m' = ?m and ?b0.0 = "boid_at 300 0 0 0" and ?b1.0 = "boid_at 305 0 0 0"
        and ?x0.0 = 300 and ?y0.0 = 0 and ?x1.0 = 305 and ?y1.0 = 0 and d = 5 and f = "0.05" and r = "0.5"] h
    by blast
  then show ?thesis
    by (simp add: Let_def boid_at_def)
qed


section \<open>The arguments handed to normalize\<close>

text \<open>
  A difference of coordinates that passes a test \<^verbatim>\<open>distance < threshold\<close> is finite,
  whatever the threshold, and so are the sums \<^verbatim>\<open>moveX\<close> and \<^verbatim>\<open>moveY\<close> of \<^verbatim>\<open>avoidOthers\<close>.
\<close>

lemma distance_less_finite:
  assumes "distance p q < c"
  shows "is_finite (vec_x p - vec_x q) \<and> is_finite (vec_y p - vec_y q)"
proof -
  have "is_finite a \<and> is_finite b" if "Math_sqrt (pow2 a + pow2 b) < c" for a b
    using that by (cases a; cases b; cases c) (simp_all add: pow2_def split: if_splits)
  then show ?thesis
    using assms by (simp add: distance_def)
qed

lemma is_finite_plus: "is_finite a \<Longrightarrow> is_finite b \<Longrightarrow> is_finite (a + b)"
  by (cases a; cases b) simp_all

lemma avoidOthers_loop_finite:
  assumes "is_finite ax" and "is_finite ay"
  shows "is_finite (fst (avoidOthers_loop m i b j xs (ax, ay)))
    \<and> is_finite (snd (avoidOthers_loop m i b j xs (ax, ay)))"
  using assms
proof (induction xs arbitrary: j ax ay)
  case Nil
  then show ?case by simp
next
  case (Cons other xs)
  show ?case
  proof (cases "j \<noteq> i \<and> distance (position b) (position other) < minDistanceBoid m")
    case True
    then have "distance (position b) (position other) < minDistanceBoid m"
      by simp
    then have "is_finite (vec_x (position b) - vec_x (position other))
        \<and> is_finite (vec_y (position b) - vec_y (position other))"
      by (rule distance_less_finite)
    with Cons.prems have "is_finite (ax + (vec_x (position b) - vec_x (position other)))"
      and "is_finite (ay + (vec_y (position b) - vec_y (position other)))"
      by (simp_all add: is_finite_plus)
    from Cons.IH [OF this] True show ?thesis
      by (simp add: Let_def)
  next
    case False
    with Cons.IH [OF Cons.prems] show ?thesis
      by (auto simp: Let_def)
  qed
qed

lemma avoidOthers_arguments_finite:
  "is_finite (fst (avoidOthers_loop m i (boids m ! i) 0 (boids m) (Fin 0, Fin 0)))
   \<and> is_finite (snd (avoidOthers_loop m i (boids m ! i) 0 (boids m) (Fin 0, Fin 0)))"
  by (rule avoidOthers_loop_finite) simp_all

lemma avoidMouse_arguments_finite:
  assumes "distance (position (boids m ! i))
              \<lparr>vec_x = ToNumber (mouse_x (mouse m)), vec_y = ToNumber (mouse_y (mouse m))\<rparr>
            < minDistanceMouse m"
  shows "is_finite (vec_x (position (boids m ! i)) - ToNumber (mouse_x (mouse m)))
    \<and> is_finite (vec_y (position (boids m ! i)) - ToNumber (mouse_y (mouse m)))"
  using distance_less_finite [OF assms] by simp

end
